theory Spec2Isabelle
  imports Main
begin

section \<open>The deploy and report commands of plugin-source\<close>

text \<open>
  The two command classes of \<^verbatim>\<open>src/commands/force/source/deploy.ts\<close> and
  \<^verbatim>\<open>src/commands/force/source/deploy/report.ts\<close> are embedded as functions that
  pass the command object (\<^verbatim>\<open>this\<close>) along explicitly. Every call on a
  collaborator (tracking library, component-set builder, deploy transport, lifecycle bus,
  display channel) appends one event to the \<open>trace\<close> field of the command object, and
  what the collaborator answers is read from an environment record, so that a thrown
  exception is a branch of the model.
\<close>

subsection \<open>Parsed flags\<close>

text \<open>
  \<^verbatim>\<open>this.flags\<close>. A boolean flag that was not given is \<open>False\<close>, any other flag
  that was not given is \<open>None\<close>. \<open>wait\<close> is a number of minutes. The record holds the
  flags of both commands (\<open>jobid\<close> belongs to report only).
\<close>

record flags =
  json :: bool
  apiversion :: "string option"
  checkonly :: bool
  soapdeploy :: bool
  wait :: nat
  testlevel :: "string option"
  runtests :: "string list option"
  ignoreerrors :: bool
  ignorewarnings :: bool
  purgeondelete :: bool
  validateddeployrequestid :: "string option"
  verbose :: bool
  metadata :: "string list option"
  sourcepath :: "string list option"
  manifest :: "string option"
  predestructivechanges :: "string option"
  postdestructivechanges :: "string option"
  tracksource :: bool
  forceoverwrite :: bool
  resultsdir :: "string option"
  coverageformatters :: "string list option"
  junit :: bool
  jobid :: "string option"

text \<open>JavaScript truthiness of an optional string: \<^verbatim>\<open>undefined\<close> and \<^verbatim>\<open>''\<close> are falsy.\<close>

fun truthy :: "string option \<Rightarrow> bool" where
  "truthy None = False"
| "truthy (Some s) = (s \<noteq> [])"

subsection \<open>Data exchanged with the collaborators\<close>

text \<open>The status values a DeployResult can carry.\<close>

datatype request_status = Queued | InProgress | Succeeded | Failed | Canceled | SucceededPartial

record deploy_response =
  response_id :: string
  status :: request_status
  numberTestsTotal :: nat

record deploy_result =
  response :: deploy_response

text \<open>\<^verbatim>\<open>{ id: deploy.id }\<close>\<close>

record async_deploy_result =
  async_id :: string

record component =
  fullName :: string
  type_name :: string
  filePaths :: "string list"

datatype change_state = Add | Modify | Delete

record change =
  change_path :: string
  change_state :: change_state

text \<open>The tracking store as the commands read it: what changed locally and remotely.\<close>

record source_tracking =
  localChanges :: "change list"
  remoteChanges :: "change list"

record manifest_options =
  manifestPath :: "string option"
  manifest_directoryPaths :: "string list"
  destructiveChangesPre :: "string option"
  destructiveChangesPost :: "string option"

record metadata_options =
  metadataEntries :: "string list option"
  metadata_directoryPaths :: "string list"

record build_options =
  build_apiversion :: "string option"
  build_sourceapiversion :: "string option"
  build_sourcepath :: "string list option"
  build_manifest :: "manifest_options option"
  build_metadata :: "metadata_options option"

record api_options =
  purgeOnDelete :: bool
  ignoreWarnings :: bool
  rollbackOnError :: bool
  checkOnly :: bool
  rest :: bool
  testLevel :: "string option"
  runTests :: "string list option"

record deploy_options =
  usernameOrConnection :: string
  apiOptions :: api_options

record formatter_options =
  opt_verbose :: bool
  opt_username :: "string option"
  coverageOptions :: "string list option"
  junitTestResults :: bool
  opt_resultsDir :: "string option"
  testsRan :: bool

subsection \<open>Errors\<close>

text \<open>
  A thrown JavaScript value is either an instance of \<^verbatim>\<open>Error\<close> with its message, or
  some other value. The command fails with a \<open>ConfigurationError\<close> (flags rejected by the
  command framework), a \<open>ConflictError\<close> (with the conflicting paths), or whatever a
  collaborator threw.
\<close>

datatype thrown = JsError string | JsValue string

datatype error = ConfigurationError string | ConflictError "string list" | Thrown thrown

subsection \<open>Events\<close>

datatype progress_formatter = DeployProgressBarFormatter | DeployProgressStatusFormatter bool

datatype formatter =
    DeployAsyncResultFormatter formatter_options "async_deploy_result option"
  | DeployResultFormatter formatter_options "deploy_result option"
  | DeployReportResultFormatter formatter_options "deploy_result option"

datatype event =
    TrackingSetup
  | Warn string
  | DeployRecentValidation "string option"
  | ComponentSetBuild build_options
  | FilterConflictsByComponentSet
  | GetChanges
  | LifecycleEmit string
  | LifecycleOn string
  | ComponentSetDeploy deploy_options
  | UpdateDeployId string
  | Progress progress_formatter
  | PollStatus string nat
  | UpdateTracking
  | MaybeCreateRequestedReports
  | Display formatter
  | ResolveDeployId "string option"
  | SfProjectResolve
  | CreateDeploy string
  | LoggerDebug string
  | ReportStatus string

subsection \<open>The command object and its environment\<close>

record command =
  flags :: flags
  isAsync :: bool
  isRest :: bool
  tracking :: "source_tracking option"
  componentSet :: "component list option"
  deployResult :: "deploy_result option"
  asyncDeployResult :: "async_deploy_result option"
  resultsDir :: "string option"
  exitCode :: nat
  trace :: "event list"

text \<open>
  What the collaborators answer. \<open>Inl\<close> is a thrown value. The members that stand for
  methods of the base class \<^verbatim>\<open>DeployCommand\<close> (\<^verbatim>\<open>src/deployCommand.ts\<close>, not among
  the sources) are parameters: \<open>isRestDeploy\<close>, \<open>getSourceApiVersion\<close>, \<open>getPackageDirs\<close>,
  \<open>resolveOutputDir\<close>, \<open>getCoverageFormattersOptions\<close>, \<open>resolveSuccess_code\<close> (the exit
  code the inherited \<^verbatim>\<open>resolveSuccess\<close> of deploy sets), \<open>createRequestedReports\<close> (what
  the inherited \<^verbatim>\<open>maybeCreateRequestedReports\<close> does with the results directory and the
  deploy result), \<open>resolveDeployId\<close>, \<open>report\<close>. So is \<open>display\<close>, the \<^verbatim>\<open>display\<close> method
  of the result formatters (\<^verbatim>\<open>src/formatters\<close>, not among the sources), which may throw.
\<close>

record env =
  trackingSetup :: "thrown + source_tracking"
  isRestDeploy :: bool
  getSourceApiVersion :: "thrown + string option"
  getPackageDirs :: "string list"
  getUsername :: string
  replay :: "string option \<Rightarrow> thrown + deploy_result"
  build :: "build_options \<Rightarrow> thrown + component list"
  emit :: "string \<Rightarrow> thrown option"
  componentSet_deploy :: "component list \<Rightarrow> deploy_options \<Rightarrow> thrown + string"
  pollStatus :: "string \<Rightarrow> nat \<Rightarrow> thrown + deploy_result"
  SFDX_USE_PROGRESS_BAR :: bool
  resolveSuccess_code :: "bool \<Rightarrow> deploy_result option \<Rightarrow> nat"
  updateTracking :: "deploy_result option \<Rightarrow> thrown option"
  resolveOutputDir ::
    "string list option \<Rightarrow> bool \<Rightarrow> string option \<Rightarrow> string option \<Rightarrow> bool \<Rightarrow>
       thrown + string option"
  getCoverageFormattersOptions :: "string list option \<Rightarrow> string list option"
  resolveDeployId :: "string option \<Rightarrow> thrown + string"
  sfProject_resolve :: "thrown + string list"
  report :: "string \<Rightarrow> thrown + deploy_result"
  createRequestedReports :: "string option \<Rightarrow> deploy_result option \<Rightarrow> thrown option"
  display :: "formatter \<Rightarrow> thrown option"

text \<open>An outcome is the pending exception, if any, and the command object as it is then.\<close>

type_synonym outcome = "error option \<times> command"

definition record_event :: "event \<Rightarrow> command \<Rightarrow> command" where
  "record_event e c = c\<lparr>trace := trace c @ [e]\<rparr>"

definition and_then :: "outcome \<Rightarrow> (command \<Rightarrow> outcome) \<Rightarrow> outcome" where
  "and_then r f = (case r of (None, c) \<Rightarrow> f c | (Some e, c) \<Rightarrow> (Some e, c))"

definition new_command :: "flags \<Rightarrow> command" where
  "new_command f =
     \<lparr>flags = f, isAsync = False, isRest = False, tracking = None, componentSet = None,
      deployResult = None, asyncDeployResult = None, resultsDir = None, exitCode = 0,
      trace = []\<rparr>"

subsection \<open>Flag relationships\<close>

text \<open>The relationship keys of one entry of a \<^verbatim>\<open>flagsConfig\<close>.\<close>

record flag_spec =
  flag_name :: string
  exactlyOne :: "string list"
  exclusive :: "string list"
  dependsOn :: "string list"

text \<open>One of these flags must be specified for a valid deploy.\<close>

definition xorFlags :: "string list" where
  "xorFlags = [''manifest'', ''metadata'', ''sourcepath'', ''validateddeployrequestid'']"

definition plain_flag :: "string \<Rightarrow> flag_spec" where
  "plain_flag n = \<lparr>flag_name = n, exactlyOne = [], exclusive = [], dependsOn = []\<rparr>"

text \<open>\<^verbatim>\<open>Deploy.flagsConfig\<close>, in the order of the source.\<close>

definition Deploy_flagsConfig :: "flag_spec list" where
  "Deploy_flagsConfig =
     [plain_flag ''checkonly'',
      plain_flag ''soapdeploy'',
      plain_flag ''wait'',
      plain_flag ''testlevel'',
      plain_flag ''runtests'',
      plain_flag ''ignoreerrors'',
      plain_flag ''ignorewarnings'',
      (plain_flag ''purgeondelete'')\<lparr>dependsOn := [''manifest'']\<rparr>,
      (plain_flag ''validateddeployrequestid'')
        \<lparr>exactlyOne := xorFlags,
         exclusive := [''checkonly'', ''testlevel'', ''runtests'', ''tracksource'']\<rparr>,
      plain_flag ''verbose'',
      (plain_flag ''metadata'')\<lparr>exactlyOne := xorFlags\<rparr>,
      (plain_flag ''sourcepath'')\<lparr>exactlyOne := xorFlags\<rparr>,
      (plain_flag ''manifest'')\<lparr>exactlyOne := xorFlags\<rparr>,
      (plain_flag ''predestructivechanges'')\<lparr>dependsOn := [''manifest'']\<rparr>,
      (plain_flag ''postdestructivechanges'')\<lparr>dependsOn := [''manifest'']\<rparr>,
      (plain_flag ''tracksource'')\<lparr>exclusive := [''checkonly'', ''validateddeployrequestid'']\<rparr>,
      (plain_flag ''forceoverwrite'')\<lparr>dependsOn := [''tracksource'']\<rparr>,
      plain_flag ''resultsdir'',
      plain_flag ''coverageformatters'',
      plain_flag ''junit'']"

text \<open>Whether the invocation gave the flag of that name a value.\<close>

definition provided :: "flags \<Rightarrow> string \<Rightarrow> bool" where
  "provided f n =
     (if n = ''checkonly'' then checkonly f
      else if n = ''soapdeploy'' then True
      else if n = ''wait'' then True
      else if n = ''testlevel'' then testlevel f \<noteq> None
      else if n = ''runtests'' then runtests f \<noteq> None
      else if n = ''ignoreerrors'' then ignoreerrors f
      else if n = ''ignorewarnings'' then ignorewarnings f
      else if n = ''purgeondelete'' then purgeondelete f
      else if n = ''validateddeployrequestid'' then validateddeployrequestid f \<noteq> None
      else if n = ''verbose'' then verbose f
      else if n = ''metadata'' then metadata f \<noteq> None
      else if n = ''sourcepath'' then sourcepath f \<noteq> None
      else if n = ''manifest'' then manifest f \<noteq> None
      else if n = ''predestructivechanges'' then predestructivechanges f \<noteq> None
      else if n = ''postdestructivechanges'' then postdestructivechanges f \<noteq> None
      else if n = ''tracksource'' then tracksource f
      else if n = ''forceoverwrite'' then forceoverwrite f
      else if n = ''resultsdir'' then resultsdir f \<noteq> None
      else if n = ''coverageformatters'' then coverageformatters f \<noteq> None
      else if n = ''junit'' then junit f
      else if n = ''jobid'' then jobid f \<noteq> None
      else if n = ''json'' then json f
      else if n = ''apiversion'' then apiversion f \<noteq> None
      else False)"

text \<open>
  Modelled from the spec: the flag-exclusivity contract of the command framework, which is
  not part of this repository's sources. The spec has the input-mode resolver fail
  with a \<open>ConfigurationError\<close> "if more than one or none are provided (enforced upstream
  by the flag-exclusivity contract)" and calls the relationship keys mutually exclusive
  (\<^verbatim>\<open>exclusive\<close>), required together (\<^verbatim>\<open>dependsOn\<close>) and exactly one of
  (\<^verbatim>\<open>exactlyOne\<close>). A flag that is given must have all it depends on, none it excludes
  and no other member of its \<^verbatim>\<open>exactlyOne\<close> group; a flag that is not given and has
  an \<^verbatim>\<open>exactlyOne\<close> group needs a member of the group to be given. The result is the
  message of the first violation, in the order of the configuration.
\<close>

definition check_flag :: "flags \<Rightarrow> flag_spec \<Rightarrow> string option" where
  "check_flag f s =
     (if provided f (flag_name s) then
        (if list_ex (\<lambda>d. \<not> provided f d) (dependsOn s) then Some (flag_name s @ '': dependsOn'')
         else if list_ex (provided f) (exclusive s) then Some (flag_name s @ '': exclusive'')
         else if list_ex (\<lambda>x. x \<noteq> flag_name s \<and> provided f x) (exactlyOne s)
           then Some (flag_name s @ '': exactlyOne'')
         else None)
      else if exactlyOne s \<noteq> [] \<and> \<not> list_ex (provided f) (exactlyOne s)
        then Some (flag_name s @ '': exactlyOne'')
      else None)"

fun validate_flags :: "flag_spec list \<Rightarrow> flags \<Rightarrow> string option" where
  "validate_flags [] f = None"
| "validate_flags (s # ss) f =
     (case check_flag f s of Some m \<Rightarrow> Some m | None \<Rightarrow> validate_flags ss f)"

subsection \<open>Tracking functions\<close>

text \<open>
  Modelled from the spec: \<^verbatim>\<open>tracking.getChanges\<close> of the source-tracking library,
  "getChanges(filter) \<rightarrow> sequence of paths", here for the filter
  \<^verbatim>\<open>{origin: 'local', state: 'delete', format: 'string'}\<close>.
\<close>

definition getChanges_local_delete :: "source_tracking \<Rightarrow> string list" where
  "getChanges_local_delete t =
     map change_path (filter (\<lambda>ch. change_state ch = Delete) (localChanges t))"

definition componentSet_paths :: "component list \<Rightarrow> string list" where
  "componentSet_paths cs = concat (map filePaths cs)"

text \<open>
  Modelled from the spec: \<^verbatim>\<open>filterConflictsByComponentSet\<close> of
  \<^verbatim>\<open>src/trackingFunctions.ts\<close>, which is not among the sources. The conflicts are the
  paths changed both locally and remotely, the filter keeps those of the resolved
  component set, and "if any conflict remains, the orchestrator transitions to a
  terminal ConflictError state".
\<close>

definition conflicts :: "source_tracking \<Rightarrow> component list \<Rightarrow> string list" where
  "conflicts t cs =
     filter (\<lambda>p. p \<in> set (map change_path (remoteChanges t)) \<and> p \<in> set (componentSet_paths cs))
       (map change_path (localChanges t))"

definition filterConflictsByComponentSet :: "source_tracking \<Rightarrow> component list \<Rightarrow> error option" where
  "filterConflictsByComponentSet t cs =
     (if conflicts t cs = [] then None else Some (ConflictError (conflicts t cs)))"

text \<open>
  The condition as the spec words it: the "pending local deletions not represented in
  the component set". The code has no such function; it is here to state C4.
\<close>

definition unrepresented_deletes :: "source_tracking \<Rightarrow> component list \<Rightarrow> string list" where
  "unrepresented_deletes t cs =
     filter (\<lambda>p. p \<notin> set (componentSet_paths cs)) (getChanges_local_delete t)"

subsection \<open>Result formatters\<close>

datatype command_result =
    DeployCommandAsyncResult "async_deploy_result option"
  | DeployCommandResult "deploy_result option"

text \<open>
  Modelled from the spec: \<^verbatim>\<open>getJson\<close> of the result formatters
  (\<^verbatim>\<open>src/formatters\<close>, not among the sources): "given either an AsyncDeployHandle or
  a terminal DeployResult, produce a display-ready and a machine-serializable
  representation", which "never mutates the DeployResult". The machine-serializable
  representation is what the formatter was built from.
\<close>

fun getJson :: "formatter \<Rightarrow> command_result" where
  "getJson (DeployAsyncResultFormatter opts h) = DeployCommandAsyncResult h"
| "getJson (DeployResultFormatter opts r) = DeployCommandResult r"
| "getJson (DeployReportResultFormatter opts r) = DeployCommandResult r"

subsection \<open>The deploy command\<close>

text \<open>
  Modelled from the spec: \<^verbatim>\<open>isJsonOutput()\<close> of the base class \<^verbatim>\<open>DeployCommand\<close>, which
  is not among the sources: "machine output mode is requested", that is the \<^verbatim>\<open>--json\<close>
  flag of the command framework.
\<close>

definition isJsonOutput :: "command \<Rightarrow> bool" where
  "isJsonOutput c = json (flags c)"

text \<open>\<^verbatim>\<open>Deploy.preChecks\<close>\<close>

definition Deploy_preChecks :: "env \<Rightarrow> command \<Rightarrow> outcome" where
  "Deploy_preChecks env c =
     (if tracksource (flags c) then
        (case trackingSetup env of
           Inl x \<Rightarrow> (Some (Thrown x), record_event TrackingSetup c)
         | Inr t \<Rightarrow> (None, (record_event TrackingSetup c)\<lparr>tracking := Some t\<rparr>))
      else (None, c))"

text \<open>
  Modelled from the spec: \<^verbatim>\<open>deployRecentValidation\<close> of the base class, the
  "replay-by-id transport: deployRecentValidation(id) \<rightarrow> DeployResult". The
  validated-replay mode "jumps straight to Submitting using the external replay-by-id
  call", and a submission "receives a request identifier", which "the orchestrator stores"
  in the handle \<^verbatim>\<open>asyncDeployResult\<close>, as line 238 does for a component set: here the
  request id of the DeployResult that the replay answers with. Nothing is stored when
  the replay call throws.
\<close>

definition deployRecentValidation :: "env \<Rightarrow> command \<Rightarrow> (thrown + deploy_result) \<times> command" where
  "deployRecentValidation env c =
     (let c1 = record_event (DeployRecentValidation (validateddeployrequestid (flags c))) c
      in case replay env (validateddeployrequestid (flags c)) of
           Inl x \<Rightarrow> (Inl x, c1)
         | Inr r \<Rightarrow>
             (Inr r, c1\<lparr>asyncDeployResult := Some \<lparr>async_id = response_id (response r)\<rparr>\<rparr>))"

text \<open>The options handed to \<^verbatim>\<open>ComponentSetBuilder.build\<close> (lines 176 to 190).\<close>

definition buildOptions :: "env \<Rightarrow> flags \<Rightarrow> string option \<Rightarrow> build_options" where
  "buildOptions env f sav =
     \<lparr>build_apiversion = apiversion f,
      build_sourceapiversion = sav,
      build_sourcepath = sourcepath f,
      build_manifest =
        (if truthy (manifest f) then
           Some \<lparr>manifestPath = manifest f,
                 manifest_directoryPaths = getPackageDirs env,
                 destructiveChangesPre = predestructivechanges f,
                 destructiveChangesPost = postdestructivechanges f\<rparr>
         else None),
      build_metadata =
        (if metadata f \<noteq> None then
           Some \<lparr>metadataEntries = metadata f,
                 metadata_directoryPaths = getPackageDirs env\<rparr>
         else None)\<rparr>"

definition resolveComponents :: "env \<Rightarrow> command \<Rightarrow> outcome" where
  "resolveComponents env c =
     (case getSourceApiVersion env of
        Inl x \<Rightarrow> (Some (Thrown x), c)
      | Inr sav \<Rightarrow>
          (let opts = buildOptions env (flags c) sav;
               c1 = record_event (ComponentSetBuild opts) c
           in case build env opts of
                Inl x \<Rightarrow> (Some (Thrown x), c1)
              | Inr cs \<Rightarrow> (None, c1\<lparr>componentSet := Some cs\<rparr>)))"

text \<open>
  Lines 191 to 204. Reading a member of \<^verbatim>\<open>this.tracking\<close> or of
  \<^verbatim>\<open>this.componentSet\<close> while it is undefined is a TypeError.
\<close>

definition checkConflicts :: "command \<Rightarrow> outcome" where
  "checkConflicts c =
     (if \<not> forceoverwrite (flags c) then
        (case (tracking c, componentSet c) of
           (Some t, Some cs) \<Rightarrow>
             (filterConflictsByComponentSet t cs, record_event FilterConflictsByComponentSet c)
         | _ \<Rightarrow> (Some (Thrown (JsError ''TypeError'')), c))
      else (None, c))"

definition warnLocalDeletes :: "command \<Rightarrow> outcome" where
  "warnLocalDeletes c =
     (case tracking c of
        None \<Rightarrow> (Some (Thrown (JsError ''TypeError'')), c)
      | Some t \<Rightarrow>
          (let localDeletes = getChanges_local_delete t;
               c1 = record_event GetChanges c
           in (None, if localDeletes \<noteq> [] then record_event (Warn ''deployWontDelete'') c1 else c1)))"

definition checkTracking :: "command \<Rightarrow> outcome" where
  "checkTracking c =
     (if tracksource (flags c) then and_then (checkConflicts c) warnLocalDeletes
      else (None, c))"

text \<open>The argument of \<^verbatim>\<open>this.componentSet.deploy\<close> (lines 221 to 237).\<close>

definition deployOptions :: "env \<Rightarrow> command \<Rightarrow> deploy_options" where
  "deployOptions env c =
     \<lparr>usernameOrConnection = getUsername env,
      apiOptions =
        \<lparr>purgeOnDelete = purgeondelete (flags c),
         ignoreWarnings = ignorewarnings (flags c),
         rollbackOnError = (\<not> ignoreerrors (flags c)),
         checkOnly = checkonly (flags c),
         rest = isRest c,
         testLevel = (if truthy (testlevel (flags c)) then testlevel (flags c) else None),
         runTests = runtests (flags c)\<rparr>\<rparr>"

text \<open>Lines 241 to 250, for the deploy handle of the given id.\<close>

definition awaitResult :: "env \<Rightarrow> string \<Rightarrow> nat \<Rightarrow> command \<Rightarrow> outcome" where
  "awaitResult env deploy_id waitDuration c =
     (if \<not> isAsync c then
        (let c1 = (if \<not> isJsonOutput c then
                     record_event
                       (Progress (if SFDX_USE_PROGRESS_BAR env then DeployProgressBarFormatter
                                  else DeployProgressStatusFormatter (verbose (flags c)))) c
                   else c);
             c2 = record_event (PollStatus deploy_id waitDuration) c1
         in case pollStatus env deploy_id waitDuration of
              Inl x \<Rightarrow> (Some (Thrown x), c2)
            | Inr r \<Rightarrow> (None, c2\<lparr>deployResult := Some r\<rparr>))
      else (None, c))"

text \<open>
  Lines 205 to 250: the predeploy event, the submission and the wait for its result. The
  listener registered for \<^verbatim>\<open>apiVersionDeploy\<close> only logs a message through \<^verbatim>\<open>this.ux.log\<close>
  when the transport announces the API version; its registration is the event recorded.
\<close>

definition submit :: "env \<Rightarrow> nat \<Rightarrow> command \<Rightarrow> outcome" where
  "submit env waitDuration c =
     (case componentSet c of
        None \<Rightarrow> (Some (Thrown (JsError ''TypeError'')), c)
      | Some cs \<Rightarrow>
          (let c1 = record_event (LifecycleEmit ''predeploy'') c
           in case emit env ''predeploy'' of
                Some x \<Rightarrow> (Some (Thrown x), c1)
              | None \<Rightarrow>
                  (let c2 = record_event (LifecycleOn ''apiVersionDeploy'') c1;
                       opts = deployOptions env c2;
                       c3 = record_event (ComponentSetDeploy opts) c2
                   in case componentSet_deploy env cs opts of
                        Inl x \<Rightarrow> (Some (Thrown x), c3)
                      | Inr deploy_id \<Rightarrow>
                          awaitResult env deploy_id waitDuration
                            (record_event (UpdateDeployId deploy_id)
                               (c3\<lparr>asyncDeployResult := Some \<lparr>async_id = deploy_id\<rparr>\<rparr>)))))"

text \<open>Lines 253 to 256.\<close>

definition postdeploy :: "env \<Rightarrow> command \<Rightarrow> outcome" where
  "postdeploy env c =
     (if deployResult c \<noteq> None then
        (case emit env ''postdeploy'' of
           Some x \<Rightarrow> (Some (Thrown x), record_event (LifecycleEmit ''postdeploy'') c)
         | None \<Rightarrow> (None, record_event (LifecycleEmit ''postdeploy'') c))
      else (None, c))"

text \<open>Lines 165 to 171.\<close>

definition beginDeploy :: "env \<Rightarrow> command \<Rightarrow> command" where
  "beginDeploy env c =
     (let c1 = c\<lparr>isAsync := (wait (flags c) = 0)\<rparr>;
          c2 = c1\<lparr>isRest := isRestDeploy env\<rparr>
      in if isAsync c2 \<and> (coverageformatters (flags c2) \<noteq> None \<or> junit (flags c2))
         then record_event (Warn ''asyncCoverageJunitWarning'') c2 else c2)"

text \<open>Lines 173 and 174: the deploy of a recent validation.\<close>

definition deployValidated :: "env \<Rightarrow> command \<Rightarrow> outcome" where
  "deployValidated env c =
     (case deployRecentValidation env c of
        (Inl x, c1) \<Rightarrow> (Some (Thrown x), c1)
      | (Inr r, c1) \<Rightarrow> (None, c1\<lparr>deployResult := Some r\<rparr>))"

text \<open>Lines 175 to 251: the deploy of a component set.\<close>

definition deployComponents :: "env \<Rightarrow> nat \<Rightarrow> command \<Rightarrow> outcome" where
  "deployComponents env waitDuration c =
     and_then (and_then (resolveComponents env c) checkTracking) (submit env waitDuration)"

text \<open>\<^verbatim>\<open>Deploy.deploy\<close>\<close>

definition Deploy_deploy :: "env \<Rightarrow> command \<Rightarrow> outcome" where
  "Deploy_deploy env c =
     (let waitDuration = wait (flags c);
          c1 = beginDeploy env c
      in and_then
           (if truthy (validateddeployrequestid (flags c1)) then deployValidated env c1
            else deployComponents env waitDuration c1)
           (postdeploy env))"

text \<open>
  \<^verbatim>\<open>resolveSuccess\<close> as deploy inherits it from the base class: it sets the exit code
  from the kind of deploy and its result.
\<close>

definition Deploy_resolveSuccess :: "env \<Rightarrow> command \<Rightarrow> outcome" where
  "Deploy_resolveSuccess env c =
     (None, c\<lparr>exitCode := resolveSuccess_code env (isAsync c) (deployResult c)\<rparr>)"

text \<open>\<^verbatim>\<open>Deploy.maybeUpdateTracking\<close>\<close>

definition Deploy_maybeUpdateTracking :: "env \<Rightarrow> command \<Rightarrow> outcome" where
  "Deploy_maybeUpdateTracking env c =
     (if tracksource (flags c) then
        (case updateTracking env (deployResult c) of
           Some x \<Rightarrow> (Some (Thrown x), record_event UpdateTracking c)
         | None \<Rightarrow> (None, record_event UpdateTracking c))
      else (None, c))"

text \<open>The formatter that \<^verbatim>\<open>Deploy.formatResult\<close> builds (lines 260 to 279).\<close>

definition Deploy_formatterOptions :: "env \<Rightarrow> command \<Rightarrow> formatter_options" where
  "Deploy_formatterOptions env c =
     \<lparr>opt_verbose = verbose (flags c),
      opt_username = Some (getUsername env),
      coverageOptions = getCoverageFormattersOptions env (coverageformatters (flags c)),
      junitTestResults = junit (flags c),
      opt_resultsDir = resultsDir c,
      testsRan = ((case testlevel (flags c) of None \<Rightarrow> ''NoTestRun'' | Some l \<Rightarrow> l) \<noteq> ''NoTestRun'')\<rparr>"

definition Deploy_formatter :: "env \<Rightarrow> command \<Rightarrow> formatter" where
  "Deploy_formatter env c =
     (if isAsync c then DeployAsyncResultFormatter (Deploy_formatterOptions env c) (asyncDeployResult c)
      else DeployResultFormatter (Deploy_formatterOptions env c) (deployResult c))"

text \<open>
  The call \<^verbatim>\<open>this.maybeCreateRequestedReports()\<close>, which writes the coverage and JUnit
  report files that were asked for, and may throw.
\<close>

definition maybeCreateRequestedReports :: "env \<Rightarrow> command \<Rightarrow> outcome" where
  "maybeCreateRequestedReports env c =
     (case createRequestedReports env (resultsDir c) (deployResult c) of
        Some x \<Rightarrow> (Some (Thrown x), record_event MaybeCreateRequestedReports c)
      | None \<Rightarrow> (None, record_event MaybeCreateRequestedReports c))"

text \<open>
  The end of \<^verbatim>\<open>formatResult\<close> in both commands: \<^verbatim>\<open>formatter.display()\<close> unless JSON
  output was requested, then \<^verbatim>\<open>return formatter.getJson()\<close>. When the display throws,
  nothing is returned.
\<close>

definition displayAndGetJson ::
  "env \<Rightarrow> formatter \<Rightarrow> command \<Rightarrow> (error + command_result) \<times> command" where
  "displayAndGetJson env formatter c =
     (if \<not> isJsonOutput c then
        (case display env formatter of
           Some x \<Rightarrow> (Inl (Thrown x), record_event (Display formatter) c)
         | None \<Rightarrow> (Inr (getJson formatter), record_event (Display formatter) c))
      else (Inr (getJson formatter), c))"

text \<open>\<^verbatim>\<open>Deploy.formatResult\<close>\<close>

definition Deploy_formatResult :: "env \<Rightarrow> command \<Rightarrow> (error + command_result) \<times> command" where
  "Deploy_formatResult env c =
     (case resolveOutputDir env (coverageformatters (flags c)) (junit (flags c))
             (resultsdir (flags c))
             (map_option (\<lambda>r. response_id (response r)) (deployResult c)) False of
        Inl x \<Rightarrow> (Inl (Thrown x), c)
      | Inr d \<Rightarrow>
          (let c1 = c\<lparr>resultsDir := d\<rparr>;
               formatter = Deploy_formatter env c1
           in case (if \<not> isAsync c1 then maybeCreateRequestedReports env c1 else (None, c1)) of
                (Some e, c2) \<Rightarrow> (Inl e, c2)
              | (None, c2) \<Rightarrow> displayAndGetJson env formatter c2))"

text \<open>\<^verbatim>\<open>Deploy.run\<close>\<close>

definition Deploy_run :: "env \<Rightarrow> command \<Rightarrow> (error + command_result) \<times> command" where
  "Deploy_run env c =
     (case and_then
             (and_then (and_then (Deploy_preChecks env c) (Deploy_deploy env))
                (Deploy_resolveSuccess env))
             (Deploy_maybeUpdateTracking env) of
        (Some e, c1) \<Rightarrow> (Inl e, c1)
      | (None, c1) \<Rightarrow> Deploy_formatResult env c1)"

text \<open>
  One invocation of the deploy command: the framework checks the flags against
  \<open>Deploy_flagsConfig\<close> before it calls \<^verbatim>\<open>run\<close> on a fresh command object.
\<close>

definition Deploy_invoke :: "env \<Rightarrow> flags \<Rightarrow> (error + command_result) \<times> command" where
  "Deploy_invoke env f =
     (case validate_flags Deploy_flagsConfig f of
        Some m \<Rightarrow> (Inl (ConfigurationError m), new_command f)
      | None \<Rightarrow> Deploy_run env (new_command f))"

subsection \<open>The report command\<close>

text \<open>\<^verbatim>\<open>String.prototype.includes\<close>\<close>

fun startsWith :: "string \<Rightarrow> string \<Rightarrow> bool" where
  "startsWith s [] = True"
| "startsWith [] (p # ps) = False"
| "startsWith (x # xs) (p # ps) = (x = p \<and> startsWith xs ps)"

fun string_includes :: "string \<Rightarrow> string \<Rightarrow> bool" where
  "string_includes [] p = (p = [])"
| "string_includes (x # xs) p = (startsWith (x # xs) p \<or> string_includes xs p)"

text \<open>
  The test of the catch clause:
  \<^verbatim>\<open>error instanceof Error && error.message.includes('The client has timed out')\<close>
\<close>

fun isClientTimeout :: "thrown \<Rightarrow> bool" where
  "isClientTimeout (JsError message) = string_includes message ''The client has timed out''"
| "isClientTimeout (JsValue v) = False"

text \<open>
  Lines 77 to 86: with \<^verbatim>\<open>--verbose\<close> a component set is built from the package
  directories of the project, if there is one; a failure to resolve the project is ignored.
\<close>

definition Report_buildOptions :: "env \<Rightarrow> build_options" where
  "Report_buildOptions env =
     \<lparr>build_apiversion = None, build_sourceapiversion = None,
      build_sourcepath = (case sfProject_resolve env of Inl x \<Rightarrow> None | Inr dirs \<Rightarrow> Some dirs),
      build_manifest = None, build_metadata = None\<rparr>"

definition Report_buildVerbose :: "env \<Rightarrow> command \<Rightarrow> outcome" where
  "Report_buildVerbose env c =
     (if verbose (flags c) then
        (let c1 = record_event SfProjectResolve c;
             opts = Report_buildOptions env;
             c2 = record_event (ComponentSetBuild opts) c1
         in case build env opts of
              Inl x \<Rightarrow> (Some (Thrown x), c2)
            | Inr cs \<Rightarrow> (None, c2\<lparr>componentSet := Some cs\<rparr>))
      else (None, c))"

text \<open>
  Lines 96 to 106: try, catch and finally. The finally block runs on every path; an
  exception it throws replaces the pending one, otherwise the pending one is rethrown
  after it.
\<close>

definition Report_poll :: "env \<Rightarrow> string \<Rightarrow> nat \<Rightarrow> command \<Rightarrow> outcome" where
  "Report_poll env deployId waitDuration c =
     (let c1 = record_event (PollStatus deployId waitDuration) c;
          caught =
            (case pollStatus env deployId waitDuration of
               Inr r \<Rightarrow> (None, c1)
             | Inl x \<Rightarrow>
                 (if isClientTimeout x then
                    (None, record_event
                       (LoggerDebug ''source:deploy:report polling timed out. Requesting status...'') c1)
                  else (Some (Thrown x), c1)));
          c2 = record_event (ReportStatus deployId) (snd caught)
      in case report env deployId of
           Inl y \<Rightarrow> (Some (Thrown y), c2)
         | Inr r \<Rightarrow> (fst caught, c2\<lparr>deployResult := Some r\<rparr>))"

text \<open>\<^verbatim>\<open>Report.doReport\<close>\<close>

definition Report_doReport :: "env \<Rightarrow> command \<Rightarrow> outcome" where
  "Report_doReport env c =
     (let c1 = record_event (ResolveDeployId (jobid (flags c))) c
      in case resolveDeployId env (jobid (flags c)) of
           Inl x \<Rightarrow> (Some (Thrown x), c1)
         | Inr deployId \<Rightarrow>
             (case resolveOutputDir env (coverageformatters (flags c1)) (junit (flags c1))
                     (resultsdir (flags c1)) (Some deployId) False of
                Inl x \<Rightarrow> (Some (Thrown x), c1)
              | Inr d \<Rightarrow>
                  and_then (Report_buildVerbose env (c1\<lparr>resultsDir := d\<rparr>))
                    (\<lambda>c3. let waitDuration = wait (flags c3);
                              c4 = record_event (CreateDeploy deployId) c3;
                              c5 = (if \<not> isJsonOutput c4 then
                                      record_event
                                        (Progress (if SFDX_USE_PROGRESS_BAR env
                                                   then DeployProgressBarFormatter
                                                   else DeployProgressStatusFormatter False)) c4
                                    else c4)
                          in Report_poll env deployId waitDuration c5)))"

text \<open>\<^verbatim>\<open>Report.resolveSuccess\<close>: the empty method.\<close>

definition Report_resolveSuccess :: "command \<Rightarrow> outcome" where
  "Report_resolveSuccess c = (None, c)"

definition Report_formatter :: "env \<Rightarrow> command \<Rightarrow> formatter" where
  "Report_formatter env c =
     DeployReportResultFormatter
       \<lparr>opt_verbose = verbose (flags c),
        opt_username = None,
        coverageOptions = getCoverageFormattersOptions env (coverageformatters (flags c)),
        junitTestResults = junit (flags c),
        opt_resultsDir = resultsDir c,
        testsRan = (case deployResult c of None \<Rightarrow> False
                    | Some r \<Rightarrow> numberTestsTotal (response r) \<noteq> 0)\<rparr>
       (deployResult c)"

text \<open>\<^verbatim>\<open>Report.formatResult\<close>\<close>

definition Report_formatResult :: "env \<Rightarrow> command \<Rightarrow> (error + command_result) \<times> command" where
  "Report_formatResult env c =
     (let formatter = Report_formatter env c
      in case maybeCreateRequestedReports env c of
           (Some e, c1) \<Rightarrow> (Inl e, c1)
         | (None, c1) \<Rightarrow> displayAndGetJson env formatter c1)"

text \<open>\<^verbatim>\<open>Report.run\<close>\<close>

definition Report_run :: "env \<Rightarrow> command \<Rightarrow> (error + command_result) \<times> command" where
  "Report_run env c =
     (case and_then (Report_doReport env c) Report_resolveSuccess of
        (Some e, c1) \<Rightarrow> (Inl e, c1)
      | (None, c1) \<Rightarrow> Report_formatResult env c1)"

text \<open>
  Modelled from the spec: the exit code the command framework gives the process. "Exit
  code is non-zero on any fatal state", that is when \<^verbatim>\<open>run\<close> throws; otherwise it is
  the exit code the command object holds, which is 0 unless the command set it.
\<close>

definition exit_status :: "(error + command_result) \<times> command \<Rightarrow> nat" where
  "exit_status r = (case fst r of Inl e \<Rightarrow> 1 | Inr v \<Rightarrow> exitCode (snd r))"

subsection \<open>Reading a trace\<close>

text \<open>What reaches the human-readable display channel: progress rendering and formatter display.\<close>

fun is_display :: "event \<Rightarrow> bool" where
  "is_display (Progress p) = True"
| "is_display (Display fm) = True"
| "is_display e = False"

fun is_submission :: "event \<Rightarrow> bool" where
  "is_submission (ComponentSetDeploy opts) = True"
| "is_submission e = False"

fun is_poll :: "event \<Rightarrow> bool" where
  "is_poll (PollStatus i w) = True"
| "is_poll e = False"

fun is_build :: "event \<Rightarrow> bool" where
  "is_build (ComponentSetBuild opts) = True"
| "is_build e = False"

subsection \<open>Example inputs\<close>

text \<open>The default flags: nothing given, the default wait of 33 minutes.\<close>

definition example_flags :: flags where
  "example_flags =
     \<lparr>json = False, apiversion = None, checkonly = False, soapdeploy = False, wait = 33,
      testlevel = None, runtests = None, ignoreerrors = False, ignorewarnings = False,
      purgeondelete = False, validateddeployrequestid = None, verbose = False, metadata = None,
      sourcepath = None, manifest = None, predestructivechanges = None,
      postdestructivechanges = None, tracksource = False, forceoverwrite = False,
      resultsdir = None, coverageformatters = None, junit = False, jobid = None\<rparr>"

text \<open>A deploy that the org reports as failed.\<close>

definition example_result :: deploy_result where
  "example_result =
     \<lparr>response = \<lparr>response_id = ''0Af000000000002AAA'', status = Failed, numberTestsTotal = 0\<rparr>\<rparr>"

text \<open>
  A tracking store with a pending local deletion of \<^verbatim>\<open>classes/A.cls\<close> and a change of
  \<^verbatim>\<open>classes/B.cls\<close> on both sides.
\<close>

definition example_tracking :: source_tracking where
  "example_tracking =
     \<lparr>localChanges = [\<lparr>change_path = ''classes/A.cls'', change_state = Delete\<rparr>,
                      \<lparr>change_path = ''classes/B.cls'', change_state = Modify\<rparr>],
      remoteChanges = [\<lparr>change_path = ''classes/B.cls'', change_state = Modify\<rparr>]\<rparr>"

definition component_A :: component where
  "component_A = \<lparr>fullName = ''A'', type_name = ''ApexClass'', filePaths = [''classes/A.cls'']\<rparr>"

definition component_B :: component where
  "component_B = \<lparr>fullName = ''B'', type_name = ''ApexClass'', filePaths = [''classes/B.cls'']\<rparr>"

text \<open>
  A display that throws for a deploy result whose status is \<open>Failed\<close>, after it has
  rendered it.
\<close>

fun example_display :: "formatter \<Rightarrow> thrown option" where
  "example_display (DeployAsyncResultFormatter opts h) = None"
| "example_display (DeployResultFormatter opts r) =
     (if map_option (\<lambda>d. status (response d)) r = Some Failed
      then Some (JsError ''Deploy failed.'') else None)"
| "example_display (DeployReportResultFormatter opts r) =
     (if map_option (\<lambda>d. status (response d)) r = Some Failed
      then Some (JsError ''The metadata deploy operation failed.'') else None)"

text \<open>
  Collaborators that all answer; the builder resolves to the one component \<open>A\<close>, and the
  display of a failed deploy throws.
\<close>

definition example_env :: env where
  "example_env =
     \<lparr>trackingSetup = Inr example_tracking,
      isRestDeploy = False,
      getSourceApiVersion = Inr (Some ''56.0''),
      getPackageDirs = [''force-app''],
      getUsername = ''user@example.com'',
      replay = (\<lambda>i. Inr example_result),
      build = (\<lambda>opts. Inr [component_A]),
      emit = (\<lambda>n. None),
      componentSet_deploy = (\<lambda>cs opts. Inr ''0Af000000000001AAA''),
      pollStatus = (\<lambda>i w. Inr example_result),
      SFDX_USE_PROGRESS_BAR = True,
      resolveSuccess_code = (\<lambda>a r. 0),
      updateTracking = (\<lambda>r. None),
      resolveOutputDir = (\<lambda>cov j rd i b. Inr None),
      getCoverageFormattersOptions = (\<lambda>cov. cov),
      resolveDeployId = (\<lambda>j. case j of None \<Rightarrow> Inl (JsError ''No deploy ID'') | Some i \<Rightarrow> Inr i),
      sfProject_resolve = Inr [''force-app''],
      report = (\<lambda>i. Inr example_result),
      createRequestedReports = (\<lambda>d r. None),
      display = example_display\<rparr>"

text \<open>\<^verbatim>\<open>deploy --metadata ApexClass --wait 0\<close>\<close>

definition flags_async :: flags where
  "flags_async = example_flags\<lparr>metadata := Some [''ApexClass''], wait := 0\<rparr>"

text \<open>\<^verbatim>\<open>deploy --validateddeployrequestid 0Af000000000001\<close>, and the same with \<^verbatim>\<open>--wait 0\<close>\<close>

definition flags_replay :: flags where
  "flags_replay = example_flags\<lparr>validateddeployrequestid := Some ''0Af000000000001''\<rparr>"

definition flags_replay_async :: flags where
  "flags_replay_async = flags_replay\<lparr>wait := 0\<rparr>"

text \<open>\<^verbatim>\<open>deploy --sourcepath classes --tracksource\<close>\<close>

definition flags_tracked :: flags where
  "flags_tracked = example_flags\<lparr>sourcepath := Some [''classes''], tracksource := True\<rparr>"

text \<open>\<^verbatim>\<open>deploy:report --jobid 0Af000000000002AAA\<close>\<close>

definition flags_report :: flags where
  "flags_report = example_flags\<lparr>jobid := Some ''0Af000000000002AAA''\<rparr>"

subsection \<open>Steps and the events they add\<close>

text \<open>\<open>only_adds P c c'\<close>: the trace of \<open>c'\<close> is the trace of \<open>c\<close> followed by events that satisfy \<open>P\<close>.\<close>

definition only_adds :: "(event \<Rightarrow> bool) \<Rightarrow> command \<Rightarrow> command \<Rightarrow> bool" where
  "only_adds P c c' \<longleftrightarrow> (\<exists>evs. trace c' = trace c @ evs \<and> list_all P evs)"

text \<open>The events of lines 205 to 250, for an asynchronous deploy (\<open>a\<close>) and JSON output (\<open>j\<close>).\<close>

fun submit_event :: "bool \<Rightarrow> bool \<Rightarrow> event \<Rightarrow> bool" where
  "submit_event a j (LifecycleEmit n) = (n = ''predeploy'')"
| "submit_event a j (LifecycleOn n) = (n = ''apiVersionDeploy'')"
| "submit_event a j (ComponentSetDeploy opts) = True"
| "submit_event a j (UpdateDeployId i) = True"
| "submit_event a j (Progress p) = (\<not> a \<and> \<not> j)"
| "submit_event a j (PollStatus i w) = (\<not> a)"
| "submit_event a j e = False"

fun format_event :: "bool \<Rightarrow> event \<Rightarrow> bool" where
  "format_event j MaybeCreateRequestedReports = True"
| "format_event j (Display fm) = (\<not> j)"
| "format_event j e = False"

text \<open>
  The events a run of deploy can add: \<open>v\<close> says that a validated deploy request id was
  given, \<open>a\<close> that the deploy is asynchronous, \<open>j\<close> that JSON output was requested.
\<close>

fun deploy_event :: "bool \<Rightarrow> bool \<Rightarrow> bool \<Rightarrow> event \<Rightarrow> bool" where
  "deploy_event v a j TrackingSetup = True"
| "deploy_event v a j (Warn m) =
     (m = ''asyncCoverageJunitWarning'' \<or> (m = ''deployWontDelete'' \<and> \<not> v))"
| "deploy_event v a j (DeployRecentValidation i) = v"
| "deploy_event v a j (ComponentSetBuild opts) = (\<not> v)"
| "deploy_event v a j FilterConflictsByComponentSet = (\<not> v)"
| "deploy_event v a j GetChanges = (\<not> v)"
| "deploy_event v a j (LifecycleEmit n) = (n = ''postdeploy'' \<or> (n = ''predeploy'' \<and> \<not> v))"
| "deploy_event v a j (LifecycleOn n) = (n = ''apiVersionDeploy'' \<and> \<not> v)"
| "deploy_event v a j (ComponentSetDeploy opts) = (\<not> v)"
| "deploy_event v a j (UpdateDeployId i) = (\<not> v)"
| "deploy_event v a j (Progress p) = (\<not> v \<and> \<not> a \<and> \<not> j)"
| "deploy_event v a j (PollStatus i w) = (\<not> v \<and> \<not> a)"
| "deploy_event v a j UpdateTracking = True"
| "deploy_event v a j MaybeCreateRequestedReports = True"
| "deploy_event v a j (Display fm) = (\<not> j)"
| "deploy_event v a j e = False"

text \<open>
  The events before the submission end with the predeploy event and the registration of
  the \<^verbatim>\<open>apiVersionDeploy\<close> listener, if there is a submission.
\<close>

definition predeploy_before_submission :: "event list \<Rightarrow> bool" where
  "predeploy_before_submission tr \<longleftrightarrow>
     (list_ex is_submission tr \<longrightarrow>
        (\<exists>pre. takeWhile (\<lambda>e. \<not> is_submission e) tr =
                 pre @ [LifecycleEmit ''predeploy'', LifecycleOn ''apiVersionDeploy'']))"

text \<open>The events a run of report can add.\<close>

fun report_event :: "bool \<Rightarrow> event \<Rightarrow> bool" where
  "report_event j (ResolveDeployId i) = True"
| "report_event j SfProjectResolve = True"
| "report_event j (ComponentSetBuild opts) = True"
| "report_event j (CreateDeploy i) = True"
| "report_event j (Progress p) = (\<not> j)"
| "report_event j (PollStatus i w) = True"
| "report_event j (LoggerDebug m) = True"
| "report_event j (ReportStatus i) = True"
| "report_event j MaybeCreateRequestedReports = True"
| "report_event j (Display fm) = (\<not> j)"
| "report_event j e = False"

section \<open>Properties\<close>

lemma provided_simps:
  "provided f ''checkonly'' = checkonly f"
  "provided f ''testlevel'' = (testlevel f \<noteq> None)"
  "provided f ''runtests'' = (runtests f \<noteq> None)"
  "provided f ''purgeondelete'' = purgeondelete f"
  "provided f ''validateddeployrequestid'' = (validateddeployrequestid f \<noteq> None)"
  "provided f ''metadata'' = (metadata f \<noteq> None)"
  "provided f ''sourcepath'' = (sourcepath f \<noteq> None)"
  "provided f ''manifest'' = (manifest f \<noteq> None)"
  "provided f ''predestructivechanges'' = (predestructivechanges f \<noteq> None)"
  "provided f ''postdestructivechanges'' = (postdestructivechanges f \<noteq> None)"
  "provided f ''tracksource'' = tracksource f"
  "provided f ''forceoverwrite'' = forceoverwrite f"
  by (simp_all add: provided_def)

lemma validate_flags_None:
  "validate_flags cfg f = None \<longleftrightarrow> (\<forall>s\<in>set cfg. check_flag f s = None)"
  by (induction cfg) (auto split: option.splits)

lemma validated_in_config:
  "(plain_flag ''validateddeployrequestid'')
     \<lparr>exactlyOne := xorFlags,
      exclusive := [''checkonly'', ''testlevel'', ''runtests'', ''tracksource'']\<rparr>
   \<in> set Deploy_flagsConfig"
  unfolding Deploy_flagsConfig_def by (intro list.set_intros)

lemma metadata_in_config:
  "(plain_flag ''metadata'')\<lparr>exactlyOne := xorFlags\<rparr> \<in> set Deploy_flagsConfig"
  unfolding Deploy_flagsConfig_def by (intro list.set_intros)

lemma sourcepath_in_config:
  "(plain_flag ''sourcepath'')\<lparr>exactlyOne := xorFlags\<rparr> \<in> set Deploy_flagsConfig"
  unfolding Deploy_flagsConfig_def by (intro list.set_intros)

lemma manifest_in_config:
  "(plain_flag ''manifest'')\<lparr>exactlyOne := xorFlags\<rparr> \<in> set Deploy_flagsConfig"
  unfolding Deploy_flagsConfig_def by (intro list.set_intros)

lemma check_flag_validated:
  "check_flag f ((plain_flag ''validateddeployrequestid'')
        \<lparr>exactlyOne := xorFlags,
         exclusive := [''checkonly'', ''testlevel'', ''runtests'', ''tracksource'']\<rparr>) = None \<Longrightarrow>
   (if validateddeployrequestid f \<noteq> None
    then \<not> checkonly f \<and> testlevel f = None \<and> runtests f = None \<and> \<not> tracksource f \<and>
         manifest f = None \<and> metadata f = None \<and> sourcepath f = None
    else manifest f \<noteq> None \<or> metadata f \<noteq> None \<or> sourcepath f \<noteq> None)"
  by (simp add: check_flag_def plain_flag_def xorFlags_def provided_simps split: if_splits)

lemma check_flag_metadata:
  "check_flag f ((plain_flag ''metadata'')\<lparr>exactlyOne := xorFlags\<rparr>) = None \<Longrightarrow>
   metadata f \<noteq> None \<Longrightarrow>
   manifest f = None \<and> sourcepath f = None \<and> validateddeployrequestid f = None"
  by (simp add: check_flag_def plain_flag_def xorFlags_def provided_simps split: if_splits)

lemma check_flag_sourcepath:
  "check_flag f ((plain_flag ''sourcepath'')\<lparr>exactlyOne := xorFlags\<rparr>) = None \<Longrightarrow>
   sourcepath f \<noteq> None \<Longrightarrow>
   manifest f = None \<and> metadata f = None \<and> validateddeployrequestid f = None"
  by (simp add: check_flag_def plain_flag_def xorFlags_def provided_simps split: if_splits)

lemma check_flag_manifest:
  "check_flag f ((plain_flag ''manifest'')\<lparr>exactlyOne := xorFlags\<rparr>) = None \<Longrightarrow>
   manifest f \<noteq> None \<Longrightarrow>
   sourcepath f = None \<and> metadata f = None \<and> validateddeployrequestid f = None"
  by (simp add: check_flag_def plain_flag_def xorFlags_def provided_simps split: if_splits)

lemma count_xorFlags:
  "length (filter (provided f) xorFlags) =
     (if manifest f \<noteq> None then 1 else 0) + (if metadata f \<noteq> None then 1 else 0) +
     (if sourcepath f \<noteq> None then 1 else 0) +
     (if validateddeployrequestid f \<noteq> None then 1 else 0)"
  by (simp add: xorFlags_def provided_simps)

lemma valid_flags_all:
  assumes "validate_flags Deploy_flagsConfig f = None"
  shows "\<forall>s\<in>set Deploy_flagsConfig. check_flag f s = None"
  using assms by (simp only: validate_flags_None)

lemma valid_flags_validated:
  assumes "validate_flags Deploy_flagsConfig f = None"
  shows "if validateddeployrequestid f \<noteq> None
    then \<not> checkonly f \<and> testlevel f = None \<and> runtests f = None \<and> \<not> tracksource f \<and>
         manifest f = None \<and> metadata f = None \<and> sourcepath f = None
    else manifest f \<noteq> None \<or> metadata f \<noteq> None \<or> sourcepath f \<noteq> None"
proof -
  have "check_flag f ((plain_flag ''validateddeployrequestid'')
        \<lparr>exactlyOne := xorFlags,
         exclusive := [''checkonly'', ''testlevel'', ''runtests'', ''tracksource'']\<rparr>) = None"
    using valid_flags_all [OF assms] validated_in_config by (rule bspec)
  then show ?thesis by (rule check_flag_validated)
qed

lemma valid_flags_metadata:
  assumes "validate_flags Deploy_flagsConfig f = None" and "metadata f \<noteq> None"
  shows "manifest f = None \<and> sourcepath f = None \<and> validateddeployrequestid f = None"
proof -
  have "check_flag f ((plain_flag ''metadata'')\<lparr>exactlyOne := xorFlags\<rparr>) = None"
    using valid_flags_all [OF assms(1)] metadata_in_config by (rule bspec)
  then show ?thesis using assms(2) by (rule check_flag_metadata)
qed

lemma valid_flags_sourcepath:
  assumes "validate_flags Deploy_flagsConfig f = None" and "sourcepath f \<noteq> None"
  shows "manifest f = None \<and> metadata f = None \<and> validateddeployrequestid f = None"
proof -
  have "check_flag f ((plain_flag ''sourcepath'')\<lparr>exactlyOne := xorFlags\<rparr>) = None"
    using valid_flags_all [OF assms(1)] sourcepath_in_config by (rule bspec)
  then show ?thesis using assms(2) by (rule check_flag_sourcepath)
qed

lemma valid_flags_manifest:
  assumes "validate_flags Deploy_flagsConfig f = None" and "manifest f \<noteq> None"
  shows "sourcepath f = None \<and> metadata f = None \<and> validateddeployrequestid f = None"
proof -
  have "check_flag f ((plain_flag ''manifest'')\<lparr>exactlyOne := xorFlags\<rparr>) = None"
    using valid_flags_all [OF assms(1)] manifest_in_config by (rule bspec)
  then show ?thesis using assms(2) by (rule check_flag_manifest)
qed

lemma valid_flags_exactly_one:
  assumes v: "validate_flags Deploy_flagsConfig f = None"
  shows "length (filter (provided f) xorFlags) = 1"
proof (cases "validateddeployrequestid f = None")
  case False
  with valid_flags_validated [OF v]
  have "manifest f = None \<and> metadata f = None \<and> sourcepath f = None" by simp
  with False show ?thesis by (simp add: count_xorFlags)
next
  case q: True
  show ?thesis
  proof (cases "manifest f = None")
    case False
    with valid_flags_manifest [OF v] q show ?thesis by (simp add: count_xorFlags)
  next
    case x: True
    show ?thesis
    proof (cases "metadata f = None")
      case False
      with valid_flags_metadata [OF v] q x show ?thesis by (simp add: count_xorFlags)
    next
      case m: True
      with valid_flags_validated [OF v] q x have "sourcepath f \<noteq> None" by simp
      with q x m show ?thesis by (simp add: count_xorFlags)
    qed
  qed
qed

subsection \<open>Sequencing and traces\<close>

lemma and_then_None [simp]: "and_then (None, c) f = f c"
  by (simp add: and_then_def)

lemma and_then_Some [simp]: "and_then (Some e, c) f = (Some e, c)"
  by (simp add: and_then_def)

lemma and_then_cases:
  "and_then r f = (case fst r of None \<Rightarrow> f (snd r) | Some e \<Rightarrow> (Some e, snd r))"
  by (cases r) (simp add: and_then_def split: option.splits)

lemma only_adds_refl [simp]: "only_adds P c c"
  by (simp add: only_adds_def)

lemma only_adds_trans: "only_adds P a b \<Longrightarrow> only_adds P b c \<Longrightarrow> only_adds P a c"
  by (auto simp: only_adds_def)

lemma only_adds_mono: "only_adds P a b \<Longrightarrow> (\<And>e. P e \<Longrightarrow> Q e) \<Longrightarrow> only_adds Q a b"
  by (auto simp: only_adds_def list_all_iff)

lemma only_adds_and_then:
  assumes "only_adds P c (snd r)"
    and "fst r = None \<Longrightarrow> only_adds P (snd r) (snd (f (snd r)))"
  shows "only_adds P c (snd (and_then r f))"
proof (cases "fst r")
  case None
  then have "and_then r f = f (snd r)" by (simp add: and_then_cases)
  with assms None show ?thesis by (metis only_adds_trans)
next
  case (Some e)
  then have "and_then r f = (Some e, snd r)" by (simp add: and_then_cases)
  with assms(1) show ?thesis by simp
qed

lemma only_adds_set:
  "only_adds P c c' \<Longrightarrow> e \<in> set (trace c') \<Longrightarrow> e \<in> set (trace c) \<or> P e"
  by (auto simp: only_adds_def list_all_iff)

lemma only_adds_list_ex:
  "only_adds P c c' \<Longrightarrow> (\<And>e. P e \<Longrightarrow> \<not> Q e) \<Longrightarrow> list_ex Q (trace c') = list_ex Q (trace c)"
  by (auto simp: only_adds_def list_all_iff list_ex_iff)

lemma only_adds_list_all:
  "only_adds P c c' \<Longrightarrow> list_all P (trace c) \<Longrightarrow> list_all P (trace c')"
  by (auto simp: only_adds_def)

subsection \<open>The events each step adds\<close>

lemma preChecks_adds: "only_adds (\<lambda>e. e = TrackingSetup) c (snd (Deploy_preChecks env c))"
  by (simp add: Deploy_preChecks_def only_adds_def record_event_def split: sum.splits)

lemma beginDeploy_adds:
  "only_adds (\<lambda>e. e = Warn ''asyncCoverageJunitWarning'') c (beginDeploy env c)"
  by (simp add: beginDeploy_def only_adds_def record_event_def Let_def)

lemma deployValidated_adds:
  "only_adds (\<lambda>e. e = DeployRecentValidation (validateddeployrequestid (flags c))) c
     (snd (deployValidated env c))"
  by (simp add: deployValidated_def deployRecentValidation_def only_adds_def record_event_def
      Let_def split: sum.splits)

lemma resolveComponents_adds: "only_adds is_build c (snd (resolveComponents env c))"
  by (simp add: resolveComponents_def only_adds_def record_event_def Let_def split: sum.splits)

lemma checkTracking_adds:
  "only_adds (\<lambda>e. e = FilterConflictsByComponentSet \<or> e = GetChanges \<or> e = Warn ''deployWontDelete'') c
     (snd (checkTracking c))"
  by (simp add: checkTracking_def checkConflicts_def warnLocalDeletes_def and_then_def only_adds_def
      record_event_def Let_def split: option.splits)

lemma submit_adds:
  "only_adds (submit_event (isAsync c) (json (flags c))) c (snd (submit env w c))"
  by (simp add: submit_def awaitResult_def only_adds_def record_event_def isJsonOutput_def Let_def
      split: sum.splits option.splits)

lemma postdeploy_adds: "only_adds (\<lambda>e. e = LifecycleEmit ''postdeploy'') c (snd (postdeploy env c))"
  by (simp add: postdeploy_def only_adds_def record_event_def split: option.splits)

lemma resolveSuccess_adds: "only_adds P c (snd (Deploy_resolveSuccess env c))"
  by (simp add: Deploy_resolveSuccess_def only_adds_def)

lemma maybeUpdateTracking_adds:
  "only_adds (\<lambda>e. e = UpdateTracking) c (snd (Deploy_maybeUpdateTracking env c))"
  by (simp add: Deploy_maybeUpdateTracking_def only_adds_def record_event_def split: option.splits)

lemma createReports_adds:
  "only_adds (\<lambda>e. e = MaybeCreateRequestedReports) c (snd (maybeCreateRequestedReports env c))"
  by (simp add: maybeCreateRequestedReports_def only_adds_def record_event_def split: option.splits)

lemma displayAndGetJson_adds:
  "only_adds (\<lambda>e. e = Display fm \<and> \<not> json (flags c)) c (snd (displayAndGetJson env fm c))"
  by (simp add: displayAndGetJson_def only_adds_def record_event_def isJsonOutput_def
      split: option.splits)

lemma createReports_keeps [simp]:
  "flags (snd (maybeCreateRequestedReports env c)) = flags c"
  "isAsync (snd (maybeCreateRequestedReports env c)) = isAsync c"
  "deployResult (snd (maybeCreateRequestedReports env c)) = deployResult c"
  "asyncDeployResult (snd (maybeCreateRequestedReports env c)) = asyncDeployResult c"
  "resultsDir (snd (maybeCreateRequestedReports env c)) = resultsDir c"
  "exitCode (snd (maybeCreateRequestedReports env c)) = exitCode c"
  by (simp_all add: maybeCreateRequestedReports_def record_event_def split: option.splits)

lemma displayAndGetJson_keeps [simp]:
  "flags (snd (displayAndGetJson env fm c)) = flags c"
  "isAsync (snd (displayAndGetJson env fm c)) = isAsync c"
  "deployResult (snd (displayAndGetJson env fm c)) = deployResult c"
  "asyncDeployResult (snd (displayAndGetJson env fm c)) = asyncDeployResult c"
  "resultsDir (snd (displayAndGetJson env fm c)) = resultsDir c"
  "exitCode (snd (displayAndGetJson env fm c)) = exitCode c"
  by (simp_all add: displayAndGetJson_def record_event_def split: option.splits)

lemma displayAndGetJson_result:
  "fst (displayAndGetJson env fm c) = Inr r \<Longrightarrow> r = getJson fm"
  by (simp add: displayAndGetJson_def split: if_splits option.splits)

lemma displayAndGetJson_json:
  "json (flags c) \<Longrightarrow> displayAndGetJson env fm c = (Inr (getJson fm), c)"
  by (simp add: displayAndGetJson_def isJsonOutput_def)

text \<open>What \<^verbatim>\<open>Deploy.formatResult\<close> does once the results directory is resolved.\<close>

lemma Deploy_formatResult_cases:
  "Deploy_formatResult env c =
     (case resolveOutputDir env (coverageformatters (flags c)) (junit (flags c))
             (resultsdir (flags c))
             (map_option (\<lambda>r. response_id (response r)) (deployResult c)) False of
        Inl x \<Rightarrow> (Inl (Thrown x), c)
      | Inr d \<Rightarrow>
          (if isAsync c then
             displayAndGetJson env (Deploy_formatter env (c\<lparr>resultsDir := d\<rparr>)) (c\<lparr>resultsDir := d\<rparr>)
           else
             (case fst (maybeCreateRequestedReports env (c\<lparr>resultsDir := d\<rparr>)) of
                Some e \<Rightarrow> (Inl e, snd (maybeCreateRequestedReports env (c\<lparr>resultsDir := d\<rparr>)))
              | None \<Rightarrow>
                  displayAndGetJson env (Deploy_formatter env (c\<lparr>resultsDir := d\<rparr>))
                    (snd (maybeCreateRequestedReports env (c\<lparr>resultsDir := d\<rparr>))))))"
  by (simp add: Deploy_formatResult_def Let_def split: sum.splits prod.splits option.splits)

lemma formatResult_adds:
  "only_adds (format_event (json (flags c))) c (snd (Deploy_formatResult env c))"
proof -
  have a: "only_adds (format_event (json (flags c))) c' (snd (maybeCreateRequestedReports env c'))" for c'
    by (rule only_adds_mono [OF createReports_adds]) simp
  have b: "only_adds (format_event (json (flags c))) c' (snd (displayAndGetJson env fm c'))"
    if "flags c' = flags c" for c' fm
    by (rule only_adds_mono [OF displayAndGetJson_adds]) (auto simp: that)
  have r: "only_adds (format_event (json (flags c))) c (c\<lparr>resultsDir := d\<rparr>)" for d
    by (simp add: only_adds_def)
  show ?thesis
    unfolding Deploy_formatResult_cases
    by (auto split: sum.splits option.splits
        intro: only_adds_trans [OF r a] only_adds_trans [OF r b]
          only_adds_trans [OF only_adds_trans [OF r a] b] only_adds_refl)
qed

subsection \<open>What each step leaves alone\<close>

lemma preChecks_keeps [simp]:
  "flags (snd (Deploy_preChecks env c)) = flags c"
  "deployResult (snd (Deploy_preChecks env c)) = deployResult c"
  by (simp_all add: Deploy_preChecks_def record_event_def split: sum.splits)

lemma beginDeploy_keeps [simp]:
  "flags (beginDeploy env c) = flags c"
  "isAsync (beginDeploy env c) = (wait (flags c) = 0)"
  "deployResult (beginDeploy env c) = deployResult c"
  "tracking (beginDeploy env c) = tracking c"
  by (simp_all add: beginDeploy_def record_event_def Let_def)

lemma deployValidated_keeps [simp]:
  "flags (snd (deployValidated env c)) = flags c"
  "isAsync (snd (deployValidated env c)) = isAsync c"
  by (simp_all add: deployValidated_def deployRecentValidation_def record_event_def Let_def
      split: sum.splits)

lemma resolveComponents_keeps [simp]:
  "flags (snd (resolveComponents env c)) = flags c"
  "isAsync (snd (resolveComponents env c)) = isAsync c"
  "deployResult (snd (resolveComponents env c)) = deployResult c"
  "tracking (snd (resolveComponents env c)) = tracking c"
  by (simp_all add: resolveComponents_def record_event_def Let_def split: sum.splits)

lemma checkTracking_keeps [simp]:
  "flags (snd (checkTracking c)) = flags c"
  "isAsync (snd (checkTracking c)) = isAsync c"
  "deployResult (snd (checkTracking c)) = deployResult c"
  "componentSet (snd (checkTracking c)) = componentSet c"
  by (simp_all add: checkTracking_def checkConflicts_def warnLocalDeletes_def and_then_def
      record_event_def Let_def split: option.splits)

lemma submit_keeps [simp]:
  "flags (snd (submit env w c)) = flags c"
  "isAsync (snd (submit env w c)) = isAsync c"
  by (simp_all add: submit_def awaitResult_def record_event_def Let_def
      split: sum.splits option.splits)

lemma postdeploy_keeps [simp]:
  "flags (snd (postdeploy env c)) = flags c"
  "isAsync (snd (postdeploy env c)) = isAsync c"
  "deployResult (snd (postdeploy env c)) = deployResult c"
  "asyncDeployResult (snd (postdeploy env c)) = asyncDeployResult c"
  by (simp_all add: postdeploy_def record_event_def split: option.splits)

lemma resolveSuccess_keeps [simp]:
  "fst (Deploy_resolveSuccess env c) = None"
  "flags (snd (Deploy_resolveSuccess env c)) = flags c"
  "isAsync (snd (Deploy_resolveSuccess env c)) = isAsync c"
  "deployResult (snd (Deploy_resolveSuccess env c)) = deployResult c"
  "asyncDeployResult (snd (Deploy_resolveSuccess env c)) = asyncDeployResult c"
  "trace (snd (Deploy_resolveSuccess env c)) = trace c"
  by (simp_all add: Deploy_resolveSuccess_def)

lemma maybeUpdateTracking_keeps [simp]:
  "flags (snd (Deploy_maybeUpdateTracking env c)) = flags c"
  "isAsync (snd (Deploy_maybeUpdateTracking env c)) = isAsync c"
  "deployResult (snd (Deploy_maybeUpdateTracking env c)) = deployResult c"
  "asyncDeployResult (snd (Deploy_maybeUpdateTracking env c)) = asyncDeployResult c"
  by (simp_all add: Deploy_maybeUpdateTracking_def record_event_def split: option.splits)

lemma formatResult_keeps [simp]:
  "flags (snd (Deploy_formatResult env c)) = flags c"
  "isAsync (snd (Deploy_formatResult env c)) = isAsync c"
  "deployResult (snd (Deploy_formatResult env c)) = deployResult c"
  "asyncDeployResult (snd (Deploy_formatResult env c)) = asyncDeployResult c"
  by (simp_all add: Deploy_formatResult_cases split: sum.splits option.splits)

lemma and_then_keeps:
  assumes "g (snd r) = x" and "\<And>c'. g (snd (f c')) = g c'"
  shows "g (snd (and_then r f)) = x"
  using assms by (cases r) (auto simp: and_then_def split: option.splits)

lemma and_then_ok: "fst (and_then r f) = None \<longleftrightarrow> fst r = None \<and> fst (f (snd r)) = None"
  by (cases r) (auto simp: and_then_def split: option.splits)

lemma only_adds_append: "only_adds P c c' \<Longrightarrow> \<exists>evs. trace c' = trace c @ evs \<and> list_all P evs"
  by (simp add: only_adds_def)

lemma and_then_keeps_flags:
  assumes "flags (snd r) = flags c" and "\<And>c'. flags (snd (f c')) = flags c'"
  shows "flags (snd (and_then r f)) = flags c"
  using assms by (cases r) (auto simp: and_then_def split: option.splits)

lemma and_then_keeps_isAsync:
  assumes "isAsync (snd r) = a" and "\<And>c'. isAsync (snd (f c')) = isAsync c'"
  shows "isAsync (snd (and_then r f)) = a"
  using assms by (cases r) (auto simp: and_then_def split: option.splits)

subsection \<open>The events of a whole run of deploy\<close>

lemma is_build_deploy_event: "is_build e \<Longrightarrow> deploy_event False a j e"
  by (cases e) simp_all

lemma submit_event_deploy_event: "submit_event a j e \<Longrightarrow> deploy_event False a j e"
  by (cases e) simp_all

lemma format_event_deploy_event: "format_event j e \<Longrightarrow> deploy_event v a j e"
  by (cases e) simp_all

lemma deployComponents_adds_exactly:
  "only_adds (\<lambda>e. is_build e \<or> e = FilterConflictsByComponentSet \<or> e = GetChanges \<or>
                  e = Warn ''deployWontDelete'' \<or> submit_event (isAsync c) (json (flags c)) e)
     c (snd (deployComponents env w c))"
    (is "only_adds ?P c _")
  unfolding deployComponents_def
proof (intro only_adds_and_then)
  show "only_adds ?P c (snd (resolveComponents env c))"
    by (rule only_adds_mono [OF resolveComponents_adds]) simp
  show "only_adds ?P (snd (resolveComponents env c))
          (snd (checkTracking (snd (resolveComponents env c))))"
    by (rule only_adds_mono [OF checkTracking_adds]) auto
  show "only_adds ?P (snd (and_then (resolveComponents env c) checkTracking))
          (snd (submit env w (snd (and_then (resolveComponents env c) checkTracking))))"
  proof (rule only_adds_mono [OF submit_adds])
    fix e
    have "flags (snd (and_then (resolveComponents env c) checkTracking)) = flags c"
      by (rule and_then_keeps_flags) simp_all
    moreover have "isAsync (snd (and_then (resolveComponents env c) checkTracking)) = isAsync c"
      by (rule and_then_keeps_isAsync) simp_all
    moreover assume "submit_event (isAsync (snd (and_then (resolveComponents env c) checkTracking)))
      (json (flags (snd (and_then (resolveComponents env c) checkTracking)))) e"
    ultimately show "?P e" by simp
  qed
qed

lemma deployComponents_adds:
  "only_adds (deploy_event False (isAsync c) (json (flags c))) c (snd (deployComponents env w c))"
  by (rule only_adds_mono [OF deployComponents_adds_exactly])
     (auto simp: is_build_deploy_event submit_event_deploy_event)

lemma deployComponents_keeps [simp]:
  "flags (snd (deployComponents env w c)) = flags c"
  "isAsync (snd (deployComponents env w c)) = isAsync c"
proof -
  show "flags (snd (deployComponents env w c)) = flags c"
    unfolding deployComponents_def
    by (intro and_then_keeps_flags) simp_all
  show "isAsync (snd (deployComponents env w c)) = isAsync c"
    unfolding deployComponents_def
    by (intro and_then_keeps_isAsync) simp_all
qed

lemma Deploy_deploy_keeps [simp]:
  "flags (snd (Deploy_deploy env c)) = flags c"
  "isAsync (snd (Deploy_deploy env c)) = (wait (flags c) = 0)"
proof -
  show "flags (snd (Deploy_deploy env c)) = flags c"
    unfolding Deploy_deploy_def Let_def
    by (rule and_then_keeps_flags) simp_all
  show "isAsync (snd (Deploy_deploy env c)) = (wait (flags c) = 0)"
    unfolding Deploy_deploy_def Let_def
    by (rule and_then_keeps_isAsync) simp_all
qed

lemma Deploy_deploy_adds:
  "only_adds (deploy_event (truthy (validateddeployrequestid (flags c))) (wait (flags c) = 0)
       (json (flags c))) c (snd (Deploy_deploy env c))"
    (is "only_adds ?P c _")
proof -
  let ?c1 = "beginDeploy env c"
  let ?body = "if truthy (validateddeployrequestid (flags ?c1)) then deployValidated env ?c1
               else deployComponents env (wait (flags c)) ?c1"
  have b: "only_adds ?P c ?c1"
    by (rule only_adds_mono [OF beginDeploy_adds]) simp
  have m: "only_adds ?P ?c1 (snd ?body)"
  proof (cases "truthy (validateddeployrequestid (flags c))")
    case True
    have "only_adds ?P ?c1 (snd (deployValidated env ?c1))"
      by (rule only_adds_mono [OF deployValidated_adds]) (simp add: True)
    with True show ?thesis by simp
  next
    case False
    have "only_adds ?P ?c1 (snd (deployComponents env (wait (flags c)) ?c1))"
      using deployComponents_adds [of ?c1 env "wait (flags c)"] False by simp
    with False show ?thesis by simp
  qed
  have p: "only_adds ?P (snd ?body) (snd (postdeploy env (snd ?body)))"
    by (rule only_adds_mono [OF postdeploy_adds]) simp
  have "only_adds ?P ?c1 (snd (and_then ?body (postdeploy env)))"
    using m p by (rule only_adds_and_then)
  with b have "only_adds ?P c (snd (and_then ?body (postdeploy env)))"
    by (rule only_adds_trans)
  then show ?thesis by (simp add: Deploy_deploy_def Let_def)
qed

subsection \<open>A whole run of deploy\<close>

text \<open>The part of \<^verbatim>\<open>run\<close> that can throw, and what follows it.\<close>

lemma Deploy_run_failed:
  assumes "fst (and_then (Deploy_preChecks env c) (Deploy_deploy env)) = Some e"
  shows "Deploy_run env c = (Inl e, snd (and_then (Deploy_preChecks env c) (Deploy_deploy env)))"
proof -
  obtain c1 where "and_then (Deploy_preChecks env c) (Deploy_deploy env) = (Some e, c1)"
    using assms by (cases "and_then (Deploy_preChecks env c) (Deploy_deploy env)") simp
  then show ?thesis by (simp add: Deploy_run_def)
qed

lemma Deploy_run_deployed:
  assumes "and_then (Deploy_preChecks env c) (Deploy_deploy env) = (None, c1)"
  shows "Deploy_run env c =
     (case Deploy_maybeUpdateTracking env (snd (Deploy_resolveSuccess env c1)) of
        (Some e, c2) \<Rightarrow> (Inl e, c2)
      | (None, c2) \<Rightarrow> Deploy_formatResult env c2)"
  using assms
  by (simp add: Deploy_run_def Deploy_resolveSuccess_def split: prod.splits option.splits)

lemma preChecks_deploy_keeps [simp]:
  "flags (snd (and_then (Deploy_preChecks env c) (Deploy_deploy env))) = flags c"
  by (rule and_then_keeps_flags) simp_all

lemma preChecks_deploy_adds:
  "only_adds (deploy_event (truthy (validateddeployrequestid (flags c))) (wait (flags c) = 0)
       (json (flags c))) c (snd (and_then (Deploy_preChecks env c) (Deploy_deploy env)))"
proof (rule only_adds_and_then)
  show "only_adds (deploy_event (truthy (validateddeployrequestid (flags c))) (wait (flags c) = 0)
       (json (flags c))) c (snd (Deploy_preChecks env c))"
    by (rule only_adds_mono [OF preChecks_adds]) simp
  show "only_adds (deploy_event (truthy (validateddeployrequestid (flags c))) (wait (flags c) = 0)
       (json (flags c))) (snd (Deploy_preChecks env c))
       (snd (Deploy_deploy env (snd (Deploy_preChecks env c))))"
    using Deploy_deploy_adds [of "snd (Deploy_preChecks env c)" env] by simp
qed

text \<open>What \<^verbatim>\<open>run\<close> does after \<^verbatim>\<open>deploy\<close>: it keeps the results and adds the tracking update,
  the report files and the display.\<close>

lemma Deploy_run_tail:
  "flags (snd (Deploy_run env c)) = flags c \<and>
   deployResult (snd (Deploy_run env c)) =
     deployResult (snd (and_then (Deploy_preChecks env c) (Deploy_deploy env))) \<and>
   asyncDeployResult (snd (Deploy_run env c)) =
     asyncDeployResult (snd (and_then (Deploy_preChecks env c) (Deploy_deploy env))) \<and>
   isAsync (snd (Deploy_run env c)) =
     isAsync (snd (and_then (Deploy_preChecks env c) (Deploy_deploy env))) \<and>
   only_adds (\<lambda>e. e = UpdateTracking \<or> format_event (json (flags c)) e)
     (snd (and_then (Deploy_preChecks env c) (Deploy_deploy env))) (snd (Deploy_run env c))"
proof (cases "fst (and_then (Deploy_preChecks env c) (Deploy_deploy env))")
  case (Some e)
  from Deploy_run_failed [OF Some] preChecks_deploy_keeps [of env c]
  show ?thesis by simp
next
  case None
  let ?d = "and_then (Deploy_preChecks env c) (Deploy_deploy env)"
  let ?u = "Deploy_maybeUpdateTracking env (snd (Deploy_resolveSuccess env (snd ?d)))"
  from None have d: "?d = (None, snd ?d)" by (cases ?d) simp
  have fd: "flags (snd ?d) = flags c" by simp
  have u: "only_adds (\<lambda>e. e = UpdateTracking \<or> format_event (json (flags c)) e) (snd ?d) (snd ?u)"
    using maybeUpdateTracking_adds [of "snd (Deploy_resolveSuccess env (snd ?d))" env]
    by (auto simp: only_adds_def list_all_iff)
  have ku: "flags (snd ?u) = flags c" "deployResult (snd ?u) = deployResult (snd ?d)"
    "asyncDeployResult (snd ?u) = asyncDeployResult (snd ?d)"
    "isAsync (snd ?u) = isAsync (snd ?d)"
    by (simp_all add: fd)
  show ?thesis
  proof (cases "fst ?u")
    case (Some e)
    then obtain c2 where u2: "?u = (Some e, c2)" by (cases ?u) simp
    from Deploy_run_deployed [OF d] u2 have r: "Deploy_run env c = (Inl e, snd ?u)" by simp
    show ?thesis using u ku by (simp add: r)
  next
    case None
    then obtain c2 where u2: "?u = (None, c2)" by (cases ?u) simp
    from Deploy_run_deployed [OF d] u2
    have r: "Deploy_run env c = Deploy_formatResult env (snd ?u)"
      by simp
    have "only_adds (\<lambda>e. e = UpdateTracking \<or> format_event (json (flags c)) e) (snd ?u)
            (snd (Deploy_formatResult env (snd ?u)))"
      by (rule only_adds_mono [OF formatResult_adds]) (simp add: ku)
    with u have "only_adds (\<lambda>e. e = UpdateTracking \<or> format_event (json (flags c)) e) (snd ?d)
            (snd (Deploy_formatResult env (snd ?u)))"
      by (rule only_adds_trans)
    then show ?thesis using ku by (simp add: r)
  qed
qed

lemma Deploy_run_adds:
  "only_adds (deploy_event (truthy (validateddeployrequestid (flags c))) (wait (flags c) = 0)
       (json (flags c))) c (snd (Deploy_run env c))"
proof (rule only_adds_trans [OF preChecks_deploy_adds])
  show "only_adds (deploy_event (truthy (validateddeployrequestid (flags c))) (wait (flags c) = 0)
       (json (flags c))) (snd (and_then (Deploy_preChecks env c) (Deploy_deploy env)))
       (snd (Deploy_run env c))"
  proof -
    from Deploy_run_tail [of env c]
    have t: "only_adds (\<lambda>e. e = UpdateTracking \<or> format_event (json (flags c)) e)
       (snd (and_then (Deploy_preChecks env c) (Deploy_deploy env))) (snd (Deploy_run env c))"
      by blast
    show ?thesis
      by (rule only_adds_mono [OF t]) (auto simp: format_event_deploy_event)
  qed
qed

lemma Deploy_invoke_events:
  "list_all (deploy_event (truthy (validateddeployrequestid f)) (wait f = 0) (json f))
     (trace (snd (Deploy_invoke env f)))"
proof (cases "validate_flags Deploy_flagsConfig f")
  case (Some m)
  then show ?thesis by (simp add: Deploy_invoke_def new_command_def)
next
  case None
  have "list_all (deploy_event (truthy (validateddeployrequestid (flags (new_command f))))
           (wait (flags (new_command f)) = 0) (json (flags (new_command f))))
         (trace (snd (Deploy_run env (new_command f))))"
    by (rule only_adds_list_all [OF Deploy_run_adds]) (simp add: new_command_def)
  with None show ?thesis by (simp add: Deploy_invoke_def new_command_def)
qed

subsection \<open>Accepted flags\<close>

lemma check_flag_plain: "check_flag f (plain_flag n) = None"
  by (simp add: check_flag_def plain_flag_def)

lemma check_flag_dependsOn:
  "check_flag f ((plain_flag n)\<lparr>dependsOn := ds\<rparr>) =
     (if provided f n \<and> list_ex (\<lambda>d. \<not> provided f d) ds then Some (n @ '': dependsOn'') else None)"
  by (simp add: check_flag_def plain_flag_def)

lemma check_flag_exclusive:
  "check_flag f ((plain_flag n)\<lparr>exclusive := xs\<rparr>) =
     (if provided f n \<and> list_ex (provided f) xs then Some (n @ '': exclusive'') else None)"
  by (simp add: check_flag_def plain_flag_def)

lemma valid_flags_intro:
  assumes "\<not> purgeondelete f" "predestructivechanges f = None" "postdestructivechanges f = None"
    and "forceoverwrite f \<longrightarrow> tracksource f"
    and "tracksource f \<longrightarrow> \<not> checkonly f \<and> validateddeployrequestid f = None"
    and "validateddeployrequestid f \<noteq> None \<longrightarrow>
           \<not> checkonly f \<and> testlevel f = None \<and> runtests f = None"
    and "length (filter (provided f) xorFlags) = 1"
  shows "validate_flags Deploy_flagsConfig f = None"
proof -
  have x: "check_flag f ((plain_flag ''validateddeployrequestid'')
        \<lparr>exactlyOne := xorFlags,
         exclusive := [''checkonly'', ''testlevel'', ''runtests'', ''tracksource'']\<rparr>) = None"
     "check_flag f ((plain_flag ''metadata'')\<lparr>exactlyOne := xorFlags\<rparr>) = None"
     "check_flag f ((plain_flag ''sourcepath'')\<lparr>exactlyOne := xorFlags\<rparr>) = None"
     "check_flag f ((plain_flag ''manifest'')\<lparr>exactlyOne := xorFlags\<rparr>) = None"
    using assms(5-7)
    by (auto simp add: check_flag_def plain_flag_def xorFlags_def provided_simps split: if_splits)
  show ?thesis
    using assms(1-5)
    by (simp add: Deploy_flagsConfig_def check_flag_plain check_flag_dependsOn check_flag_exclusive
        x provided_simps)
qed

lemma valid_flags_async: "validate_flags Deploy_flagsConfig flags_async = None"
  by (rule valid_flags_intro) (simp_all add: count_xorFlags flags_async_def example_flags_def)

lemma valid_flags_replay: "validate_flags Deploy_flagsConfig flags_replay = None"
  by (rule valid_flags_intro) (simp_all add: count_xorFlags flags_replay_def example_flags_def)

lemma valid_flags_replay_async: "validate_flags Deploy_flagsConfig flags_replay_async = None"
  by (rule valid_flags_intro)
     (simp_all add: count_xorFlags flags_replay_async_def flags_replay_def example_flags_def)

lemma valid_flags_tracked: "validate_flags Deploy_flagsConfig flags_tracked = None"
  by (rule valid_flags_intro) (simp_all add: count_xorFlags flags_tracked_def example_flags_def)

lemma valid_flags_not_truthy:
  assumes "validate_flags Deploy_flagsConfig f = None" and "tracksource f"
  shows "\<not> truthy (validateddeployrequestid f)"
proof -
  from valid_flags_validated [OF assms(1)] assms(2)
  have "validateddeployrequestid f = None" by (auto split: if_splits)
  then show ?thesis by simp
qed

lemma valid_flags_truthy:
  assumes "validate_flags Deploy_flagsConfig f = None" and "truthy (validateddeployrequestid f)"
  shows "\<not> tracksource f"
  using valid_flags_not_truthy [OF assms(1)] assms(2) by blast

lemma Deploy_invoke_valid:
  "validate_flags Deploy_flagsConfig f = None \<Longrightarrow>
   Deploy_invoke env f = Deploy_run env (new_command f)"
  by (simp add: Deploy_invoke_def)

lemma Deploy_invoke_invalid:
  "validate_flags Deploy_flagsConfig f = Some m \<Longrightarrow>
   Deploy_invoke env f = (Inl (ConfigurationError m), new_command f)"
  by (simp add: Deploy_invoke_def)

lemmas deploy_eval = Deploy_run_def Deploy_preChecks_def
  Deploy_deploy_def beginDeploy_def deployValidated_def deployRecentValidation_def
  deployComponents_def resolveComponents_def buildOptions_def deployOptions_def
  checkTracking_def checkConflicts_def warnLocalDeletes_def filterConflictsByComponentSet_def
  conflicts_def componentSet_paths_def getChanges_local_delete_def
  submit_def awaitResult_def postdeploy_def Deploy_resolveSuccess_def
  Deploy_maybeUpdateTracking_def Deploy_formatResult_def Deploy_formatter_def
  maybeCreateRequestedReports_def displayAndGetJson_def
  Deploy_formatterOptions_def record_event_def new_command_def Let_def isJsonOutput_def

lemmas example_defs = example_flags_def example_env_def example_tracking_def example_result_def
  component_A_def component_B_def

subsection \<open>What a run of deploy returns\<close>

lemma Deploy_formatter_cong:
  assumes "flags a = flags b" and "isAsync a = isAsync b" and "deployResult a = deployResult b"
    and "asyncDeployResult a = asyncDeployResult b" and "resultsDir a = resultsDir b"
  shows "Deploy_formatter env a = Deploy_formatter env b"
  using assms by (simp add: Deploy_formatter_def Deploy_formatterOptions_def)

lemma formatResult_json:
  assumes "fst (Deploy_formatResult env c) = Inr r"
  shows "r = getJson (Deploy_formatter env (snd (Deploy_formatResult env c)))"
proof -
  let ?o = "resolveOutputDir env (coverageformatters (flags c)) (junit (flags c))
             (resultsdir (flags c))
             (map_option (\<lambda>r. response_id (response r)) (deployResult c)) False"
  from assms obtain d where d: "?o = Inr d"
    by (cases ?o) (simp_all add: Deploy_formatResult_cases)
  let ?c1 = "c\<lparr>resultsDir := d\<rparr>"
  let ?m = "maybeCreateRequestedReports env ?c1"
  show ?thesis
  proof (cases "isAsync c")
    case True
    then have f: "Deploy_formatResult env c = displayAndGetJson env (Deploy_formatter env ?c1) ?c1"
      by (simp add: Deploy_formatResult_cases d)
    have "Deploy_formatter env (snd (displayAndGetJson env (Deploy_formatter env ?c1) ?c1)) =
          Deploy_formatter env ?c1"
      by (rule Deploy_formatter_cong) simp_all
    with displayAndGetJson_result [of env "Deploy_formatter env ?c1" ?c1 r] assms
    show ?thesis by (simp add: f)
  next
    case False
    with assms have n: "fst ?m = None"
      by (cases "fst ?m") (simp_all add: Deploy_formatResult_cases d)
    with False have f: "Deploy_formatResult env c =
        displayAndGetJson env (Deploy_formatter env ?c1) (snd ?m)"
      by (simp add: Deploy_formatResult_cases d)
    have "Deploy_formatter env (snd (displayAndGetJson env (Deploy_formatter env ?c1) (snd ?m))) =
          Deploy_formatter env ?c1"
      by (rule Deploy_formatter_cong) simp_all
    with displayAndGetJson_result [of env "Deploy_formatter env ?c1" "snd ?m" r] assms
    show ?thesis by (simp add: f)
  qed
qed

lemma Deploy_run_result:
  assumes "fst (Deploy_run env c) = Inr r"
  shows "fst (and_then (Deploy_preChecks env c) (Deploy_deploy env)) = None \<and>
         r = getJson (Deploy_formatter env (snd (Deploy_run env c)))"
proof (cases "fst (and_then (Deploy_preChecks env c) (Deploy_deploy env))")
  case (Some e)
  from Deploy_run_failed [OF Some] assms show ?thesis by simp
next
  case None
  let ?d = "and_then (Deploy_preChecks env c) (Deploy_deploy env)"
  let ?u = "Deploy_maybeUpdateTracking env (snd (Deploy_resolveSuccess env (snd ?d)))"
  from None have d: "?d = (None, snd ?d)" by (cases ?d) simp
  show ?thesis
  proof (cases "fst ?u")
    case (Some e)
    then obtain c2 where u2: "?u = (Some e, c2)" by (cases ?u) simp
    from Deploy_run_deployed [OF d] u2 assms show ?thesis by simp
  next
    case n: None
    then obtain c2 where u2: "?u = (None, c2)" by (cases ?u) simp
    from Deploy_run_deployed [OF d] u2
    have "Deploy_run env c = Deploy_formatResult env c2"
      by simp
    with assms None formatResult_json [of env c2 r] show ?thesis by simp
  qed
qed

lemma preChecks_deploy_isAsync:
  assumes "fst (and_then (Deploy_preChecks env c) (Deploy_deploy env)) = None"
  shows "isAsync (snd (and_then (Deploy_preChecks env c) (Deploy_deploy env))) = (wait (flags c) = 0)"
proof -
  from assms have "fst (Deploy_preChecks env c) = None" by (simp add: and_then_ok)
  then have "and_then (Deploy_preChecks env c) (Deploy_deploy env) =
             Deploy_deploy env (snd (Deploy_preChecks env c))"
    by (simp add: and_then_cases)
  then show ?thesis by simp
qed

subsection \<open>Outcomes of the steps of deploy\<close>

lemma submit_deployResult:
  assumes "deployResult c = None"
  shows "(deployResult (snd (submit env w c)) \<noteq> None \<longrightarrow>
            fst (submit env w c) = None \<and> \<not> isAsync c \<and>
            list_ex is_poll (trace (snd (submit env w c)))) \<and>
         (fst (submit env w c) = None \<longrightarrow>
            (deployResult (snd (submit env w c)) \<noteq> None \<longleftrightarrow> \<not> isAsync c))"
  using assms
  by (simp add: submit_def awaitResult_def record_event_def Let_def
      split: sum.splits option.splits)

lemma submit_asyncDeployResult:
  assumes "fst (submit env w c) = None"
  shows "\<exists>cs opts i. componentSet_deploy env cs opts = Inr i \<and>
           asyncDeployResult (snd (submit env w c)) = Some \<lparr>async_id = i\<rparr>"
  using assms
  by (auto simp add: submit_def awaitResult_def record_event_def Let_def
      split: sum.splits option.splits if_splits)

lemma submit_submits:
  assumes "componentSet c = Some cs" and "emit env ''predeploy'' = None"
  shows "list_ex is_submission (trace (snd (submit env w c)))"
  using assms
  by (simp add: submit_def awaitResult_def record_event_def Let_def
      split: sum.splits option.splits)

lemma takeWhile_no_submission:
  "\<not> list_ex is_submission xs \<Longrightarrow>
   takeWhile (\<lambda>e. \<not> is_submission e) (xs @ ys) = xs @ takeWhile (\<lambda>e. \<not> is_submission e) ys"
  by (simp add: list_ex_iff takeWhile_append2)

lemma submit_shape:
  assumes "\<not> list_ex is_submission (trace c)"
  shows "predeploy_before_submission (trace (snd (submit env w c)))"
  using assms
  by (simp add: predeploy_before_submission_def submit_def awaitResult_def record_event_def
      Let_def takeWhile_no_submission split: sum.splits option.splits)

lemma deployValidated_trace:
  "trace (snd (deployValidated env c)) =
     trace c @ [DeployRecentValidation (validateddeployrequestid (flags c))]"
  by (simp add: deployValidated_def deployRecentValidation_def record_event_def Let_def
      split: sum.splits)

lemma deployValidated_deployResult:
  "replay env (validateddeployrequestid (flags c)) = Inr r \<Longrightarrow>
     fst (deployValidated env c) = None \<and> deployResult (snd (deployValidated env c)) = Some r"
  "deployResult c = None \<Longrightarrow>
     (deployResult (snd (deployValidated env c)) \<noteq> None \<longleftrightarrow> fst (deployValidated env c) = None)"
  by (simp_all add: deployValidated_def deployRecentValidation_def record_event_def Let_def
      split: sum.splits)

text \<open>A replay that returns has stored the request id of its result.\<close>

lemma deployValidated_asyncDeployResult:
  assumes "fst (deployValidated env c) = None"
  shows "\<exists>d. replay env (validateddeployrequestid (flags c)) = Inr d \<and>
           asyncDeployResult (snd (deployValidated env c)) =
             Some \<lparr>async_id = response_id (response d)\<rparr>"
  using assms
  by (simp add: deployValidated_def deployRecentValidation_def record_event_def Let_def
      split: sum.splits)

lemma postdeploy_trace:
  "trace (snd (postdeploy env c)) =
     trace c @ (if deployResult c \<noteq> None then [LifecycleEmit ''postdeploy''] else [])"
  by (simp add: postdeploy_def record_event_def split: option.splits)

lemma predeploy_before_submission_none:
  "\<not> list_ex is_submission tr \<Longrightarrow> predeploy_before_submission tr"
  by (simp add: predeploy_before_submission_def)

lemma predeploy_before_submission_adds:
  assumes "only_adds P c c'" and "\<And>e. P e \<Longrightarrow> \<not> is_submission e"
    and "predeploy_before_submission (trace c)"
  shows "predeploy_before_submission (trace c')"
proof -
  from assms(1) obtain evs where t: "trace c' = trace c @ evs" and p: "list_all P evs"
    by (auto simp: only_adds_def)
  from p assms(2) have n: "\<forall>e\<in>set evs. \<not> is_submission e" by (auto simp: list_all_iff)
  show ?thesis
  proof (cases "list_ex is_submission (trace c)")
    case False
    with n t have "\<not> list_ex is_submission (trace c')" by (auto simp: list_ex_iff)
    then show ?thesis by (rule predeploy_before_submission_none)
  next
    case True
    then obtain x where "x \<in> set (trace c)" "\<not> \<not> is_submission x" by (auto simp: list_ex_iff)
    then have "takeWhile (\<lambda>e. \<not> is_submission e) (trace c @ evs) =
               takeWhile (\<lambda>e. \<not> is_submission e) (trace c)"
      by (rule takeWhile_append1)
    with assms(3) True t show ?thesis by (simp add: predeploy_before_submission_def)
  qed
qed

subsection \<open>Outcomes of the component-set deploy\<close>

lemma resolve_check_keeps [simp]:
  "flags (snd (and_then (resolveComponents env c) checkTracking)) = flags c"
  "isAsync (snd (and_then (resolveComponents env c) checkTracking)) = isAsync c"
  "deployResult (snd (and_then (resolveComponents env c) checkTracking)) = deployResult c"
proof -
  show "flags (snd (and_then (resolveComponents env c) checkTracking)) = flags c"
    by (rule and_then_keeps) simp_all
  show "isAsync (snd (and_then (resolveComponents env c) checkTracking)) = isAsync c"
    by (rule and_then_keeps) simp_all
  show "deployResult (snd (and_then (resolveComponents env c) checkTracking)) = deployResult c"
    by (rule and_then_keeps) simp_all
qed

lemma resolve_check_adds:
  "only_adds (\<lambda>e. is_build e \<or> e = FilterConflictsByComponentSet \<or> e = GetChanges \<or>
                  e = Warn ''deployWontDelete'')
     c (snd (and_then (resolveComponents env c) checkTracking))"
proof (rule only_adds_and_then)
  show "only_adds (\<lambda>e. is_build e \<or> e = FilterConflictsByComponentSet \<or> e = GetChanges \<or>
                  e = Warn ''deployWontDelete'') c (snd (resolveComponents env c))"
    by (rule only_adds_mono [OF resolveComponents_adds]) simp
  show "only_adds (\<lambda>e. is_build e \<or> e = FilterConflictsByComponentSet \<or> e = GetChanges \<or>
                  e = Warn ''deployWontDelete'') (snd (resolveComponents env c))
          (snd (checkTracking (snd (resolveComponents env c))))"
    by (rule only_adds_mono [OF checkTracking_adds]) auto
qed

lemma deployComponents_cases:
  "deployComponents env w c =
     (case fst (and_then (resolveComponents env c) checkTracking) of
        None \<Rightarrow> submit env w (snd (and_then (resolveComponents env c) checkTracking))
      | Some e \<Rightarrow> (Some e, snd (and_then (resolveComponents env c) checkTracking)))"
  unfolding deployComponents_def by (rule and_then_cases)

lemma deployComponents_deployResult:
  assumes "deployResult c = None"
  shows "(deployResult (snd (deployComponents env w c)) \<noteq> None \<longrightarrow>
            fst (deployComponents env w c) = None \<and> \<not> isAsync c \<and>
            list_ex is_poll (trace (snd (deployComponents env w c)))) \<and>
         (fst (deployComponents env w c) = None \<longrightarrow>
            (deployResult (snd (deployComponents env w c)) \<noteq> None \<longleftrightarrow> \<not> isAsync c))"
proof (cases "fst (and_then (resolveComponents env c) checkTracking)")
  case (Some e)
  with assms show ?thesis by (simp add: deployComponents_cases)
next
  case None
  let ?q = "snd (and_then (resolveComponents env c) checkTracking)"
  from assms have "deployResult ?q = None" by simp
  from submit_deployResult [OF this, of env w] None show ?thesis
    by (simp add: deployComponents_cases)
qed

lemma deployComponents_asyncDeployResult:
  assumes "fst (deployComponents env w c) = None"
  shows "\<exists>cs opts i. componentSet_deploy env cs opts = Inr i \<and>
           asyncDeployResult (snd (deployComponents env w c)) = Some \<lparr>async_id = i\<rparr>"
proof (cases "fst (and_then (resolveComponents env c) checkTracking)")
  case (Some e)
  with assms show ?thesis by (simp add: deployComponents_cases)
next
  case None
  with assms have "fst (submit env w (snd (and_then (resolveComponents env c) checkTracking))) = None"
    by (simp add: deployComponents_cases)
  from submit_asyncDeployResult [OF this] None show ?thesis
    by (simp add: deployComponents_cases)
qed

lemma deployComponents_shape:
  assumes "\<not> list_ex is_submission (trace c)"
  shows "predeploy_before_submission (trace (snd (deployComponents env w c)))"
proof -
  let ?q = "snd (and_then (resolveComponents env c) checkTracking)"
  have "list_ex is_submission (trace ?q) = list_ex is_submission (trace c)"
    by (rule only_adds_list_ex [OF resolve_check_adds]) (auto elim: is_build.elims)
  with assms have q: "\<not> list_ex is_submission (trace ?q)" by simp
  show ?thesis
  proof (cases "fst (and_then (resolveComponents env c) checkTracking)")
    case (Some e)
    with q show ?thesis
      by (simp add: deployComponents_cases predeploy_before_submission_none)
  next
    case None
    with submit_shape [OF q, of env w] show ?thesis by (simp add: deployComponents_cases)
  qed
qed

subsection \<open>Outcomes of deploy\<close>

text \<open>The body of \<^verbatim>\<open>deploy\<close> between its first lines and the postdeploy event.\<close>

lemma Deploy_deploy_cases:
  "Deploy_deploy env c =
     and_then
       (if truthy (validateddeployrequestid (flags c)) then deployValidated env (beginDeploy env c)
        else deployComponents env (wait (flags c)) (beginDeploy env c))
       (postdeploy env)"
  by (simp add: Deploy_deploy_def Let_def)

lemma deploy_body_adds:
  "only_adds (\<lambda>e. e \<noteq> LifecycleEmit ''postdeploy'') c
     (snd (if truthy (validateddeployrequestid (flags c)) then deployValidated env (beginDeploy env c)
           else deployComponents env (wait (flags c)) (beginDeploy env c)))"
proof (rule only_adds_trans)
  show "only_adds (\<lambda>e. e \<noteq> LifecycleEmit ''postdeploy'') c (beginDeploy env c)"
    by (rule only_adds_mono [OF beginDeploy_adds]) simp
  show "only_adds (\<lambda>e. e \<noteq> LifecycleEmit ''postdeploy'') (beginDeploy env c)
     (snd (if truthy (validateddeployrequestid (flags c)) then deployValidated env (beginDeploy env c)
           else deployComponents env (wait (flags c)) (beginDeploy env c)))"
  proof (cases "truthy (validateddeployrequestid (flags c))")
    case True
    have "only_adds (\<lambda>e. e \<noteq> LifecycleEmit ''postdeploy'') (beginDeploy env c)
            (snd (deployValidated env (beginDeploy env c)))"
      by (rule only_adds_mono [OF deployValidated_adds]) simp
    with True show ?thesis by simp
  next
    case False
    have "only_adds (\<lambda>e. e \<noteq> LifecycleEmit ''postdeploy'') (beginDeploy env c)
            (snd (deployComponents env (wait (flags c)) (beginDeploy env c)))"
      by (rule only_adds_mono [OF deployComponents_adds_exactly]) (auto elim: is_build.elims)
    with False show ?thesis by simp
  qed
qed

lemma deploy_body_deployResult:
  fixes env :: env and c :: command
  assumes "deployResult c = None"
  defines "b \<equiv> (if truthy (validateddeployrequestid (flags c))
                 then deployValidated env (beginDeploy env c)
                 else deployComponents env (wait (flags c)) (beginDeploy env c))"
  shows "(deployResult (snd b) \<noteq> None \<longrightarrow>
            fst b = None \<and>
            (truthy (validateddeployrequestid (flags c)) \<or>
             wait (flags c) \<noteq> 0 \<and> list_ex is_poll (trace (snd b)))) \<and>
         (fst b = None \<longrightarrow>
            (deployResult (snd b) \<noteq> None \<longleftrightarrow>
               truthy (validateddeployrequestid (flags c)) \<or> wait (flags c) \<noteq> 0))"
proof (cases "truthy (validateddeployrequestid (flags c))")
  case True
  from assms(1) have "deployResult (beginDeploy env c) = None" by simp
  from deployValidated_deployResult(2) [OF this, of env] True show ?thesis
    by (simp add: b_def)
next
  case False
  from assms(1) have "deployResult (beginDeploy env c) = None" by simp
  from deployComponents_deployResult [OF this, of env "wait (flags c)"] False show ?thesis
    by (simp add: b_def)
qed

lemma Deploy_deploy_deployResult:
  assumes "deployResult c = None"
  shows "(deployResult (snd (Deploy_deploy env c)) \<noteq> None \<longrightarrow>
            truthy (validateddeployrequestid (flags c)) \<or>
            wait (flags c) \<noteq> 0 \<and> list_ex is_poll (trace (snd (Deploy_deploy env c)))) \<and>
         (fst (Deploy_deploy env c) = None \<longrightarrow>
            (deployResult (snd (Deploy_deploy env c)) \<noteq> None \<longleftrightarrow>
               truthy (validateddeployrequestid (flags c)) \<or> wait (flags c) \<noteq> 0))"
proof -
  let ?b = "if truthy (validateddeployrequestid (flags c))
            then deployValidated env (beginDeploy env c)
            else deployComponents env (wait (flags c)) (beginDeploy env c)"
  note b = deploy_body_deployResult [OF assms, of env]
  show ?thesis
  proof (cases "fst ?b")
    case (Some e)
    then have "Deploy_deploy env c = (Some e, snd ?b)"
      by (simp add: Deploy_deploy_cases and_then_cases)
    with b Some show ?thesis by simp
  next
    case None
    then have d: "Deploy_deploy env c = postdeploy env (snd ?b)"
      by (simp add: Deploy_deploy_cases and_then_cases)
    have "list_ex is_poll (trace (snd ?b)) \<Longrightarrow> list_ex is_poll (trace (snd (postdeploy env (snd ?b))))"
      by (simp add: postdeploy_trace)
    moreover have "fst (postdeploy env (snd ?b)) = None \<Longrightarrow> fst ?b = None"
      using None by simp
    ultimately show ?thesis using b None by (auto simp: d)
  qed
qed

lemma Deploy_deploy_postdeploy:
  assumes "deployResult c = None" and "LifecycleEmit ''postdeploy'' \<notin> set (trace c)"
  shows "LifecycleEmit ''postdeploy'' \<in> set (trace (snd (Deploy_deploy env c))) \<longleftrightarrow>
         deployResult (snd (Deploy_deploy env c)) \<noteq> None"
proof -
  let ?b = "if truthy (validateddeployrequestid (flags c))
            then deployValidated env (beginDeploy env c)
            else deployComponents env (wait (flags c)) (beginDeploy env c)"
  note b = deploy_body_deployResult [OF assms(1), of env]
  from only_adds_set [OF deploy_body_adds, of "LifecycleEmit ''postdeploy''" c env] assms(2)
  have n: "LifecycleEmit ''postdeploy'' \<notin> set (trace (snd ?b))" by blast
  show ?thesis
  proof (cases "fst ?b")
    case (Some e)
    then have "Deploy_deploy env c = (Some e, snd ?b)"
      by (simp add: Deploy_deploy_cases and_then_cases)
    with b Some n show ?thesis by simp
  next
    case None
    then have d: "Deploy_deploy env c = postdeploy env (snd ?b)"
      by (simp add: Deploy_deploy_cases and_then_cases)
    show ?thesis using n by (simp add: d postdeploy_trace)
  qed
qed

lemma Deploy_deploy_asyncDeployResult:
  assumes "fst (Deploy_deploy env c) = None" and "\<not> truthy (validateddeployrequestid (flags c))"
  shows "\<exists>cs opts i. componentSet_deploy env cs opts = Inr i \<and>
           asyncDeployResult (snd (Deploy_deploy env c)) = Some \<lparr>async_id = i\<rparr>"
proof -
  from assms have d: "Deploy_deploy env c =
      and_then (deployComponents env (wait (flags c)) (beginDeploy env c)) (postdeploy env)"
    by (simp add: Deploy_deploy_cases)
  with assms(1) have ok: "fst (deployComponents env (wait (flags c)) (beginDeploy env c)) = None"
    by (simp add: and_then_ok)
  then have "Deploy_deploy env c =
      postdeploy env (snd (deployComponents env (wait (flags c)) (beginDeploy env c)))"
    by (simp add: d and_then_cases)
  with deployComponents_asyncDeployResult [OF ok] show ?thesis by simp
qed

lemma Deploy_deploy_asyncDeployResult_validated:
  assumes "fst (Deploy_deploy env c) = None" and "truthy (validateddeployrequestid (flags c))"
  shows "\<exists>d. replay env (validateddeployrequestid (flags c)) = Inr d \<and>
           asyncDeployResult (snd (Deploy_deploy env c)) =
             Some \<lparr>async_id = response_id (response d)\<rparr>"
proof -
  from assms have d: "Deploy_deploy env c =
      and_then (deployValidated env (beginDeploy env c)) (postdeploy env)"
    by (simp add: Deploy_deploy_cases)
  with assms(1) have ok: "fst (deployValidated env (beginDeploy env c)) = None"
    by (simp add: and_then_ok)
  then have "Deploy_deploy env c = postdeploy env (snd (deployValidated env (beginDeploy env c)))"
    by (simp add: d and_then_cases)
  with deployValidated_asyncDeployResult [OF ok] show ?thesis by simp
qed

lemma Deploy_deploy_shape:
  assumes "\<not> list_ex is_submission (trace c)"
  shows "predeploy_before_submission (trace (snd (Deploy_deploy env c)))"
proof -
  let ?c1 = "beginDeploy env c"
  let ?b = "if truthy (validateddeployrequestid (flags c))
            then deployValidated env ?c1 else deployComponents env (wait (flags c)) ?c1"
  have "list_ex is_submission (trace ?c1) = list_ex is_submission (trace c)"
    by (rule only_adds_list_ex [OF beginDeploy_adds]) simp
  with assms have c1: "\<not> list_ex is_submission (trace ?c1)" by simp
  have b: "predeploy_before_submission (trace (snd ?b))"
  proof (cases "truthy (validateddeployrequestid (flags c))")
    case True
    from c1 have "\<not> list_ex is_submission (trace (snd (deployValidated env ?c1)))"
      by (simp add: deployValidated_trace)
    with True show ?thesis by (simp add: predeploy_before_submission_none)
  next
    case False
    with deployComponents_shape [OF c1, of env "wait (flags c)"] show ?thesis by simp
  qed
  have "only_adds (\<lambda>e. e = LifecycleEmit ''postdeploy'') (snd ?b)
          (snd (and_then ?b (postdeploy env)))"
    by (rule only_adds_and_then) (simp_all add: postdeploy_adds)
  then have "predeploy_before_submission (trace (snd (and_then ?b (postdeploy env))))"
    using _ b by (rule predeploy_before_submission_adds) simp
  then show ?thesis by (simp add: Deploy_deploy_cases)
qed

subsection \<open>Outcomes of a run of deploy\<close>

lemma preChecks_deploy_cases:
  "and_then (Deploy_preChecks env c) (Deploy_deploy env) =
     (case fst (Deploy_preChecks env c) of
        None \<Rightarrow> Deploy_deploy env (snd (Deploy_preChecks env c))
      | Some e \<Rightarrow> (Some e, snd (Deploy_preChecks env c)))"
  by (rule and_then_cases)

lemma preChecks_no_event:
  assumes "\<not> Q TrackingSetup"
  shows "list_ex Q (trace (snd (Deploy_preChecks env c))) = list_ex Q (trace c)"
  by (rule only_adds_list_ex [OF preChecks_adds]) (simp add: assms)

lemma preChecks_deploy_deployResult:
  fixes env :: env and c :: command
  assumes "deployResult c = None"
  defines "d \<equiv> and_then (Deploy_preChecks env c) (Deploy_deploy env)"
  shows "(deployResult (snd d) \<noteq> None \<longrightarrow>
            truthy (validateddeployrequestid (flags c)) \<or>
            wait (flags c) \<noteq> 0 \<and> list_ex is_poll (trace (snd d))) \<and>
         (fst d = None \<longrightarrow>
            (deployResult (snd d) \<noteq> None \<longleftrightarrow>
               truthy (validateddeployrequestid (flags c)) \<or> wait (flags c) \<noteq> 0))"
proof (cases "fst (Deploy_preChecks env c)")
  case (Some e)
  with assms(1) show ?thesis by (simp add: d_def preChecks_deploy_cases)
next
  case None
  from assms(1) have "deployResult (snd (Deploy_preChecks env c)) = None" by simp
  from Deploy_deploy_deployResult [OF this, of env] None show ?thesis
    by (simp add: d_def preChecks_deploy_cases)
qed

lemma preChecks_deploy_postdeploy:
  fixes env :: env and c :: command
  assumes "deployResult c = None" and "LifecycleEmit ''postdeploy'' \<notin> set (trace c)"
  defines "d \<equiv> and_then (Deploy_preChecks env c) (Deploy_deploy env)"
  shows "LifecycleEmit ''postdeploy'' \<in> set (trace (snd d)) \<longleftrightarrow> deployResult (snd d) \<noteq> None"
proof -
  from only_adds_set [OF preChecks_adds [of c env], of "LifecycleEmit ''postdeploy''"] assms(2)
  have n: "LifecycleEmit ''postdeploy'' \<notin> set (trace (snd (Deploy_preChecks env c)))" by blast
  from assms(1) have r: "deployResult (snd (Deploy_preChecks env c)) = None" by simp
  show ?thesis
  proof (cases "fst (Deploy_preChecks env c)")
    case (Some e)
    with n r show ?thesis by (simp add: d_def preChecks_deploy_cases)
  next
    case None
    with Deploy_deploy_postdeploy [OF r n, of env] show ?thesis
      by (simp add: d_def preChecks_deploy_cases)
  qed
qed

lemma preChecks_deploy_shape:
  assumes "\<not> list_ex is_submission (trace c)"
  shows "predeploy_before_submission
           (trace (snd (and_then (Deploy_preChecks env c) (Deploy_deploy env))))"
proof -
  from assms have n: "\<not> list_ex is_submission (trace (snd (Deploy_preChecks env c)))"
    by (simp add: preChecks_no_event)
  show ?thesis
  proof (cases "fst (Deploy_preChecks env c)")
    case (Some e)
    with n show ?thesis
      by (simp add: preChecks_deploy_cases predeploy_before_submission_none)
  next
    case None
    with Deploy_deploy_shape [OF n, of env] show ?thesis
      by (simp add: preChecks_deploy_cases)
  qed
qed

lemma preChecks_deploy_asyncDeployResult:
  assumes "fst (and_then (Deploy_preChecks env c) (Deploy_deploy env)) = None"
    and "\<not> truthy (validateddeployrequestid (flags c))"
  shows "\<exists>cs opts i. componentSet_deploy env cs opts = Inr i \<and>
           asyncDeployResult (snd (and_then (Deploy_preChecks env c) (Deploy_deploy env))) =
             Some \<lparr>async_id = i\<rparr>"
proof -
  from assms(1) have p: "fst (Deploy_preChecks env c) = None"
    and d: "fst (Deploy_deploy env (snd (Deploy_preChecks env c))) = None"
    by (simp_all add: and_then_ok)
  from assms(2) have "\<not> truthy (validateddeployrequestid (flags (snd (Deploy_preChecks env c))))"
    by simp
  from Deploy_deploy_asyncDeployResult [OF d this] p show ?thesis
    by (simp add: preChecks_deploy_cases)
qed

lemma preChecks_deploy_asyncDeployResult_validated:
  assumes "fst (and_then (Deploy_preChecks env c) (Deploy_deploy env)) = None"
    and "truthy (validateddeployrequestid (flags c))"
  shows "\<exists>d. replay env (validateddeployrequestid (flags c)) = Inr d \<and>
           asyncDeployResult (snd (and_then (Deploy_preChecks env c) (Deploy_deploy env))) =
             Some \<lparr>async_id = response_id (response d)\<rparr>"
proof -
  from assms(1) have p: "fst (Deploy_preChecks env c) = None"
    and d: "fst (Deploy_deploy env (snd (Deploy_preChecks env c))) = None"
    by (simp_all add: and_then_ok)
  from assms(2) have "truthy (validateddeployrequestid (flags (snd (Deploy_preChecks env c))))"
    by simp
  from Deploy_deploy_asyncDeployResult_validated [OF d this] p show ?thesis
    by (simp add: preChecks_deploy_cases)
qed

text \<open>The events that \<^verbatim>\<open>run\<close> adds after \<^verbatim>\<open>deploy\<close> are neither polls, nor submissions, nor lifecycle events.\<close>

lemma Deploy_run_tail_events:
  assumes "\<not> Q UpdateTracking" "\<not> Q MaybeCreateRequestedReports" "\<And>fm. \<not> Q (Display fm)"
  shows "list_ex Q (trace (snd (Deploy_run env c))) =
         list_ex Q (trace (snd (and_then (Deploy_preChecks env c) (Deploy_deploy env))))"
proof -
  from Deploy_run_tail [of env c]
  have t: "only_adds (\<lambda>e. e = UpdateTracking \<or> format_event (json (flags c)) e)
       (snd (and_then (Deploy_preChecks env c) (Deploy_deploy env))) (snd (Deploy_run env c))"
    by blast
  show ?thesis
  proof (rule only_adds_list_ex [OF t])
    fix e
    assume "e = UpdateTracking \<or> format_event (json (flags c)) e"
    with assms show "\<not> Q e" by (cases e) auto
  qed
qed

lemma list_ex_eq: "list_ex (\<lambda>e. e = x) xs \<longleftrightarrow> x \<in> set xs"
  by (auto simp: list_ex_iff)

lemma list_all_not_ex: "list_all P xs \<Longrightarrow> (\<And>e. P e \<Longrightarrow> \<not> Q e) \<Longrightarrow> \<not> list_ex Q xs"
  by (auto simp: list_all_iff list_ex_iff)

lemma list_all_not_mem: "list_all P xs \<Longrightarrow> \<not> P x \<Longrightarrow> x \<notin> set xs"
  by (auto simp: list_all_iff)

lemma new_command_simps [simp]:
  "flags (new_command f) = f"
  "trace (new_command f) = []"
  "deployResult (new_command f) = None"
  "asyncDeployResult (new_command f) = None"
  "tracking (new_command f) = None"
  "exitCode (new_command f) = 0"
  by (simp_all add: new_command_def)

subsection \<open>The report command\<close>

lemma record_event_keeps [simp]:
  "flags (record_event e c) = flags c"
  "exitCode (record_event e c) = exitCode c"
  "deployResult (record_event e c) = deployResult c"
  "trace (record_event e c) = trace c @ [e]"
  by (simp_all add: record_event_def)

lemma Report_poll_outcome:
  "fst (Report_poll env i w c) =
     (case report env i of
        Inl y \<Rightarrow> Some (Thrown y)
      | Inr r \<Rightarrow>
          (case pollStatus env i w of
             Inr r' \<Rightarrow> None
           | Inl x \<Rightarrow> if isClientTimeout x then None else Some (Thrown x)))"
  by (simp add: Report_poll_def Let_def split: sum.splits)

lemma Report_poll_fetches:
  "ReportStatus i \<in> set (trace (snd (Report_poll env i w c)))"
  by (simp add: Report_poll_def Let_def record_event_def split: sum.splits)

lemma Report_poll_deployResult:
  "report env i = Inr r \<Longrightarrow> deployResult (snd (Report_poll env i w c)) = Some r"
  by (simp add: Report_poll_def Let_def record_event_def split: sum.splits)

lemma Report_poll_keeps [simp]:
  "flags (snd (Report_poll env i w c)) = flags c"
  "exitCode (snd (Report_poll env i w c)) = exitCode c"
  by (simp_all add: Report_poll_def Let_def record_event_def split: sum.splits)

lemma Report_poll_adds:
  "only_adds (report_event j) c (snd (Report_poll env i w c))"
  by (simp add: Report_poll_def Let_def record_event_def only_adds_def split: sum.splits)

lemma Report_buildVerbose_keeps [simp]:
  "flags (snd (Report_buildVerbose env c)) = flags c"
  "exitCode (snd (Report_buildVerbose env c)) = exitCode c"
  by (simp_all add: Report_buildVerbose_def Let_def record_event_def split: sum.splits)

lemma Report_buildVerbose_adds:
  "only_adds (report_event j) c (snd (Report_buildVerbose env c))"
  by (simp add: Report_buildVerbose_def Let_def record_event_def only_adds_def split: sum.splits)

lemma Report_buildVerbose_ok:
  assumes "verbose (flags c) \<longrightarrow> (\<exists>cs. build env (Report_buildOptions env) = Inr cs)"
  shows "fst (Report_buildVerbose env c) = None"
  using assms by (auto simp add: Report_buildVerbose_def Let_def)

text \<open>Lines 88 to 106 of \<^verbatim>\<open>doReport\<close>, once the deploy id is resolved.\<close>

lemma Report_doReport_resolved:
  assumes "resolveDeployId env (jobid (flags c)) = Inr i"
    and "resolveOutputDir env (coverageformatters (flags c)) (junit (flags c))
           (resultsdir (flags c)) (Some i) False = Inr d"
    and "verbose (flags c) \<longrightarrow> (\<exists>cs. build env (Report_buildOptions env) = Inr cs)"
  shows "\<exists>c'. Report_doReport env c = Report_poll env i (wait (flags c)) c' \<and>
              flags c' = flags c \<and> exitCode c' = exitCode c"
proof -
  let ?c2 = "(record_event (ResolveDeployId (jobid (flags c))) c)\<lparr>resultsDir := d\<rparr>"
  let ?b = "Report_buildVerbose env ?c2"
  have f2: "flags ?c2 = flags c" by (simp add: record_event_def)
  have "verbose (flags ?c2) \<longrightarrow> (\<exists>cs. build env (Report_buildOptions env) = Inr cs)"
    using assms(3) by (simp add: f2)
  then have ok: "fst ?b = None" by (rule Report_buildVerbose_ok)
  have fb: "flags (snd ?b) = flags c" and eb: "exitCode (snd ?b) = exitCode c"
    by (simp_all add: record_event_def)
  let ?c4 = "record_event (CreateDeploy i) (snd ?b)"
  let ?c5 = "if \<not> isJsonOutput ?c4 then
               record_event (Progress (if SFDX_USE_PROGRESS_BAR env then DeployProgressBarFormatter
                                       else DeployProgressStatusFormatter False)) ?c4
             else ?c4"
  have "Report_doReport env c = Report_poll env i (wait (flags c)) ?c5"
    using assms(1,2) ok fb
    by (simp add: Report_doReport_def Let_def and_then_cases f2 record_event_def)
  moreover have "flags ?c5 = flags c" using fb by (simp add: record_event_def)
  moreover have "exitCode ?c5 = exitCode c" using eb by (simp add: record_event_def)
  ultimately show ?thesis by blast
qed

lemma Report_doReport_keeps [simp]:
  "flags (snd (Report_doReport env c)) = flags c"
  "exitCode (snd (Report_doReport env c)) = exitCode c"
proof -
  show "flags (snd (Report_doReport env c)) = flags c"
    unfolding Report_doReport_def Let_def
    by (simp add: and_then_keeps [where g = flags] split: sum.splits)
  show "exitCode (snd (Report_doReport env c)) = exitCode c"
    unfolding Report_doReport_def Let_def
    by (simp add: and_then_keeps [where g = exitCode] split: sum.splits)
qed

lemma Report_doReport_adds:
  "only_adds (report_event (json (flags c))) c (snd (Report_doReport env c))"
proof (cases "resolveDeployId env (jobid (flags c))")
  case (Inl x)
  then show ?thesis
    by (simp add: Report_doReport_def Let_def record_event_def only_adds_def)
next
  case (Inr i)
  let ?j = "json (flags c)"
  let ?o = "resolveOutputDir env (coverageformatters (flags c)) (junit (flags c))
              (resultsdir (flags c)) (Some i) False"
  show ?thesis
  proof (cases ?o)
    case (Inl x)
    with Inr show ?thesis
      by (simp add: Report_doReport_def Let_def record_event_def only_adds_def)
  next
    case o: (Inr d)
    let ?c2 = "(record_event (ResolveDeployId (jobid (flags c))) c)\<lparr>resultsDir := d\<rparr>"
    let ?k = "\<lambda>c3. Report_poll env i (wait (flags c3))
                (if \<not> isJsonOutput (record_event (CreateDeploy i) c3) then
                   record_event (Progress (if SFDX_USE_PROGRESS_BAR env then DeployProgressBarFormatter
                                           else DeployProgressStatusFormatter False))
                     (record_event (CreateDeploy i) c3)
                 else record_event (CreateDeploy i) c3)"
    have d: "Report_doReport env c = and_then (Report_buildVerbose env ?c2) ?k"
      using Inr o by (simp add: Report_doReport_def Let_def)
    have a1: "only_adds (report_event ?j) c ?c2"
      by (simp add: only_adds_def record_event_def)
    have a2: "only_adds (report_event ?j) ?c2 (snd (Report_buildVerbose env ?c2))"
      by (rule Report_buildVerbose_adds)
    have a3: "only_adds (report_event ?j) c3 (snd (?k c3))" if "flags c3 = flags c" for c3
    proof -
      have "only_adds (report_event ?j) c3
              (if \<not> isJsonOutput (record_event (CreateDeploy i) c3) then
                   record_event (Progress (if SFDX_USE_PROGRESS_BAR env then DeployProgressBarFormatter
                                           else DeployProgressStatusFormatter False))
                     (record_event (CreateDeploy i) c3)
                 else record_event (CreateDeploy i) c3)"
        using that by (simp add: only_adds_def record_event_def isJsonOutput_def)
      then show ?thesis by (rule only_adds_trans) (rule Report_poll_adds)
    qed
    have "flags (snd (Report_buildVerbose env ?c2)) = flags c" by (simp add: record_event_def)
    from a3 [OF this] have "only_adds (report_event ?j) (snd (Report_buildVerbose env ?c2))
        (snd (?k (snd (Report_buildVerbose env ?c2))))" .
    with a2 have "only_adds (report_event ?j) ?c2 (snd (and_then (Report_buildVerbose env ?c2) ?k))"
      by (rule only_adds_and_then)
    with a1 show ?thesis unfolding d by (rule only_adds_trans)
  qed
qed

text \<open>\<^verbatim>\<open>Report.formatResult\<close>, step by step.\<close>

lemma Report_formatResult_cases:
  "Report_formatResult env c =
     (case fst (maybeCreateRequestedReports env c) of
        Some e \<Rightarrow> (Inl e, snd (maybeCreateRequestedReports env c))
      | None \<Rightarrow>
          displayAndGetJson env (Report_formatter env c) (snd (maybeCreateRequestedReports env c)))"
  by (simp add: Report_formatResult_def Let_def split: prod.splits option.splits)

lemma Report_formatResult_keeps [simp]:
  "exitCode (snd (Report_formatResult env c)) = exitCode c"
  "flags (snd (Report_formatResult env c)) = flags c"
  "deployResult (snd (Report_formatResult env c)) = deployResult c"
  "resultsDir (snd (Report_formatResult env c)) = resultsDir c"
  by (simp_all add: Report_formatResult_cases split: option.splits)

lemma Report_formatter_cong:
  assumes "flags a = flags b" and "deployResult a = deployResult b" and "resultsDir a = resultsDir b"
  shows "Report_formatter env a = Report_formatter env b"
  using assms by (simp add: Report_formatter_def)

lemma Report_formatResult_json:
  assumes "fst (Report_formatResult env c) = Inr r"
  shows "r = getJson (Report_formatter env (snd (Report_formatResult env c)))"
    and "r = DeployCommandResult (deployResult c)"
proof -
  let ?m = "maybeCreateRequestedReports env c"
  from assms have n: "fst ?m = None"
    by (cases "fst ?m") (simp_all add: Report_formatResult_cases)
  then have f: "Report_formatResult env c = displayAndGetJson env (Report_formatter env c) (snd ?m)"
    by (simp add: Report_formatResult_cases)
  from displayAndGetJson_result [of env "Report_formatter env c" "snd ?m" r] assms
  have r: "r = getJson (Report_formatter env c)" by (simp add: f)
  have "Report_formatter env (snd (Report_formatResult env c)) = Report_formatter env c"
    by (rule Report_formatter_cong) simp_all
  with r show "r = getJson (Report_formatter env (snd (Report_formatResult env c)))" by simp
  from r show "r = DeployCommandResult (deployResult c)" by (simp add: Report_formatter_def)
qed

text \<open>With JSON output, what is returned once the report files are written.\<close>

lemma Report_formatResult_returns:
  assumes "json (flags c)" and "createRequestedReports env (resultsDir c) (deployResult c) = None"
  shows "fst (Report_formatResult env c) = Inr (DeployCommandResult (deployResult c))"
  using assms
  by (simp add: Report_formatResult_def Let_def maybeCreateRequestedReports_def
      displayAndGetJson_def isJsonOutput_def Report_formatter_def)

lemma Report_formatResult_adds:
  "only_adds (report_event (json (flags c))) c (snd (Report_formatResult env c))"
proof -
  have a: "only_adds (report_event (json (flags c))) c (snd (maybeCreateRequestedReports env c))"
    by (rule only_adds_mono [OF createReports_adds]) simp
  have b: "only_adds (report_event (json (flags c))) (snd (maybeCreateRequestedReports env c))
             (snd (displayAndGetJson env fm (snd (maybeCreateRequestedReports env c))))" for fm
    by (rule only_adds_mono [OF displayAndGetJson_adds]) auto
  show ?thesis
    unfolding Report_formatResult_cases
    by (auto split: option.splits intro: a only_adds_trans [OF a b])
qed

lemma Report_run_cases:
  "Report_run env c =
     (case fst (Report_doReport env c) of
        Some e \<Rightarrow> (Inl e, snd (Report_doReport env c))
      | None \<Rightarrow> Report_formatResult env (snd (Report_doReport env c)))"
  by (cases "Report_doReport env c")
     (simp add: Report_run_def Report_resolveSuccess_def split: option.splits prod.splits)

lemma Report_run_adds:
  "only_adds (report_event (json (flags c))) c (snd (Report_run env c))"
proof (cases "fst (Report_doReport env c)")
  case (Some e)
  with Report_doReport_adds [of c env] show ?thesis by (simp add: Report_run_cases)
next
  case None
  have "only_adds (report_event (json (flags c))) (snd (Report_doReport env c))
          (snd (Report_formatResult env (snd (Report_doReport env c))))"
    using Report_formatResult_adds [of "snd (Report_doReport env c)" env] by simp
  with Report_doReport_adds [of c env] None show ?thesis
    by (simp add: Report_run_cases) (rule only_adds_trans)
qed

lemma Report_run_exitCode: "exitCode (snd (Report_run env c)) = exitCode c"
  by (simp add: Report_run_cases split: option.splits)

lemma Report_run_result:
  assumes "fst (Report_run env c) = Inr r"
  shows "fst (Report_doReport env c) = None"
    and "r = getJson (Report_formatter env (snd (Report_run env c)))"
    and "r = DeployCommandResult (deployResult (snd (Report_doReport env c)))"
proof -
  from assms show n: "fst (Report_doReport env c) = None"
    by (cases "fst (Report_doReport env c)") (simp_all add: Report_run_cases)
  then have f: "Report_run env c = Report_formatResult env (snd (Report_doReport env c))"
    by (simp add: Report_run_cases)
  from Report_formatResult_json [of env "snd (Report_doReport env c)" r] assms
  show "r = getJson (Report_formatter env (snd (Report_run env c)))"
    and "r = DeployCommandResult (deployResult (snd (Report_doReport env c)))"
    by (simp_all add: f)
qed

lemma Report_run_failed:
  "fst (Report_doReport env c) = Some e \<Longrightarrow> fst (Report_run env c) = Inl e"
  by (simp add: Report_run_cases)

text \<open>Nothing in report sets the exit code: the exit status is 0 exactly when \<^verbatim>\<open>run\<close> returns.\<close>

lemma Report_exit_status:
  "exit_status (Report_run env (new_command f)) = 0 \<longleftrightarrow>
     (\<exists>r. fst (Report_run env (new_command f)) = Inr r)"
  by (cases "fst (Report_run env (new_command f))")
     (simp_all add: exit_status_def Report_run_exitCode new_command_def)

lemma only_adds_mem: "only_adds P c c' \<Longrightarrow> x \<in> set (trace c) \<Longrightarrow> x \<in> set (trace c')"
  by (auto simp: only_adds_def)

text \<open>What \<^verbatim>\<open>doReport\<close> ends with, once the polling is reached.\<close>

lemma Report_doReport_polled:
  assumes "resolveDeployId env (jobid f) = Inr i"
    and "resolveOutputDir env (coverageformatters f) (junit f) (resultsdir f) (Some i) False = Inr d"
    and "verbose f \<longrightarrow> (\<exists>cs. build env (Report_buildOptions env) = Inr cs)"
  shows "ReportStatus i \<in> set (trace (snd (Report_doReport env (new_command f))))"
    and "fst (Report_doReport env (new_command f)) =
           (case report env i of
              Inl y \<Rightarrow> Some (Thrown y)
            | Inr r \<Rightarrow>
                (case pollStatus env i (wait f) of
                   Inr r' \<Rightarrow> None
                 | Inl x \<Rightarrow> if isClientTimeout x then None else Some (Thrown x)))"
    and "report env i = Inr r \<Longrightarrow> deployResult (snd (Report_doReport env (new_command f))) = Some r"
proof -
  let ?c0 = "new_command f"
  from assms Report_doReport_resolved [of env ?c0 i d]
  obtain c' where d: "Report_doReport env ?c0 = Report_poll env i (wait f) c'"
    by auto
  show "ReportStatus i \<in> set (trace (snd (Report_doReport env ?c0)))"
    unfolding d by (rule Report_poll_fetches)
  show "fst (Report_doReport env ?c0) =
           (case report env i of
              Inl y \<Rightarrow> Some (Thrown y)
            | Inr r \<Rightarrow>
                (case pollStatus env i (wait f) of
                   Inr r' \<Rightarrow> None
                 | Inl x \<Rightarrow> if isClientTimeout x then None else Some (Thrown x)))"
    unfolding d by (rule Report_poll_outcome)
  show "deployResult (snd (Report_doReport env ?c0)) = Some r" if "report env i = Inr r"
    unfolding d using that by (rule Report_poll_deployResult)
qed

lemmas report_eval = Report_run_def Report_doReport_def Report_buildVerbose_def
  Report_buildOptions_def Report_poll_def Report_resolveSuccess_def Report_formatResult_def
  Report_formatter_def maybeCreateRequestedReports_def displayAndGetJson_def
  record_event_def new_command_def Let_def isJsonOutput_def exit_status_def

section \<open>The statements of the specification\<close>

text \<open>
  C1. An invocation of deploy that gives none or more than one of the four input-mode
  flags \<open>manifest\<close>, \<open>metadata\<close>, \<open>sourcepath\<close> and \<open>validateddeployrequestid\<close> fails with a
  \<open>ConfigurationError\<close>, and no collaborator has been called by then: the trace is empty.
  So an invocation that is accepted gives exactly one of them.
\<close>

theorem C1_exactly_one_input_mode:
  assumes "length (filter (provided f) xorFlags) \<noteq> 1"
  shows "(\<exists>m. fst (Deploy_invoke env f) = Inl (ConfigurationError m)) \<and>
         trace (snd (Deploy_invoke env f)) = []"
proof (cases "validate_flags Deploy_flagsConfig f")
  case None
  with valid_flags_exactly_one [of f] assms show ?thesis by simp
next
  case (Some m)
  then show ?thesis
    by (simp add: Deploy_invoke_def new_command_def)
qed

theorem C1_exactly_one_input_mode_witness:
  "length (filter (provided example_flags) xorFlags) \<noteq> 1 \<and>
   (\<exists>m. fst (Deploy_invoke example_env example_flags) = Inl (ConfigurationError m)) \<and>
   trace (snd (Deploy_invoke example_env example_flags)) = []"
proof -
  have h: "length (filter (provided example_flags) xorFlags) \<noteq> 1"
    by (simp add: count_xorFlags example_flags_def)
  from h C1_exactly_one_input_mode [OF h, of example_env] show ?thesis by simp
qed

text \<open>
  C2. On an accepted invocation with \<open>tracksource\<close> set and \<open>forceoverwrite\<close> unset, for
  which the tracking store and the component set are there: if some path is changed
  locally and remotely and belongs to the resolved component set, the command fails with
  a \<open>ConflictError\<close> that lists the conflicting paths, and \<^verbatim>\<open>componentSet.deploy\<close> is
  never called.
\<close>

theorem C2_conflict_aborts_before_submission:
  assumes "tracksource f" and "\<not> forceoverwrite f"
    and "validate_flags Deploy_flagsConfig f = None"
    and "trackingSetup env = Inr t"
    and "getSourceApiVersion env = Inr sav"
    and "build env (buildOptions env f sav) = Inr cs"
    and "conflicts t cs \<noteq> []"
  shows "fst (Deploy_invoke env f) = Inl (ConflictError (conflicts t cs)) \<and>
         \<not> list_ex is_submission (trace (snd (Deploy_invoke env f)))"
proof -
  have nv: "\<not> truthy (validateddeployrequestid f)"
    by (rule valid_flags_not_truthy [OF assms(3) assms(1)])
  have "fst (Deploy_run env (new_command f)) = Inl (ConflictError (conflicts t cs)) \<and>
        \<not> list_ex is_submission (trace (snd (Deploy_run env (new_command f))))"
    using assms(1,2,4-7) nv
    by (simp add: Deploy_run_def Deploy_preChecks_def Deploy_deploy_def beginDeploy_def
        deployComponents_def resolveComponents_def checkTracking_def checkConflicts_def
        filterConflictsByComponentSet_def record_event_def new_command_def Let_def)
  then show ?thesis by (simp add: Deploy_invoke_valid [OF assms(3)])
qed

theorem C2_conflict_aborts_before_submission_witness:
  "tracksource flags_tracked \<and> \<not> forceoverwrite flags_tracked \<and>
   validate_flags Deploy_flagsConfig flags_tracked = None \<and>
   conflicts example_tracking [component_B] = [''classes/B.cls''] \<and>
   fst (Deploy_invoke (example_env\<lparr>build := \<lambda>opts. Inr [component_B]\<rparr>) flags_tracked) =
     Inl (ConflictError [''classes/B.cls'']) \<and>
   \<not> list_ex is_submission
       (trace (snd (Deploy_invoke (example_env\<lparr>build := \<lambda>opts. Inr [component_B]\<rparr>) flags_tracked)))"
proof -
  let ?env = "example_env\<lparr>build := \<lambda>opts. Inr [component_B]\<rparr>"
  have h1: "tracksource flags_tracked" and h2: "\<not> forceoverwrite flags_tracked"
    by (simp_all add: flags_tracked_def example_flags_def)
  have h4: "trackingSetup ?env = Inr example_tracking"
    and h5: "getSourceApiVersion ?env = Inr (Some ''56.0'')"
    and h6: "build ?env (buildOptions ?env flags_tracked (Some ''56.0'')) = Inr [component_B]"
    by (simp_all add: example_env_def)
  have c: "conflicts example_tracking [component_B] = [''classes/B.cls'']"
    by (simp add: conflicts_def componentSet_paths_def example_tracking_def component_B_def)
  then have h7: "conflicts example_tracking [component_B] \<noteq> []" by simp
  note r = C2_conflict_aborts_before_submission
    [OF h1 h2 valid_flags_tracked h4 h5 h6 h7, unfolded c]
  from h1 h2 valid_flags_tracked c r show ?thesis by blast
qed

text \<open>
  C3. With \<open>wait = 0\<close> no run of deploy calls \<^verbatim>\<open>pollStatus\<close>, and whenever the command
  returns, what it returns is exactly \<^verbatim>\<open>{ id }\<close>: with the id that the submission of the
  component set returned or, when a validated deploy request id was given, with the
  request id of the replayed deploy.
\<close>

theorem C3_async_returns_request_id:
  assumes "wait f = 0"
  shows "\<not> list_ex is_poll (trace (snd (Deploy_invoke env f))) \<and>
         (\<forall>r. fst (Deploy_invoke env f) = Inr r \<longrightarrow>
              (\<exists>i. r = DeployCommandAsyncResult (Some \<lparr>async_id = i\<rparr>) \<and>
                   (if truthy (validateddeployrequestid f)
                    then \<exists>d. replay env (validateddeployrequestid f) = Inr d \<and>
                             i = response_id (response d)
                    else \<exists>cs opts. componentSet_deploy env cs opts = Inr i)))"
proof -
  have poll: "\<not> list_ex is_poll (trace (snd (Deploy_invoke env f)))"
    by (rule list_all_not_ex [OF Deploy_invoke_events]) (auto simp: assms elim: is_poll.elims)
  have res: "\<exists>i. r = DeployCommandAsyncResult (Some \<lparr>async_id = i\<rparr>) \<and>
                   (if truthy (validateddeployrequestid f)
                    then \<exists>d. replay env (validateddeployrequestid f) = Inr d \<and>
                             i = response_id (response d)
                    else \<exists>cs opts. componentSet_deploy env cs opts = Inr i)"
    if r: "fst (Deploy_invoke env f) = Inr r" for r
  proof -
    let ?c0 = "new_command f"
    let ?d = "and_then (Deploy_preChecks env ?c0) (Deploy_deploy env)"
    have valid: "validate_flags Deploy_flagsConfig f = None"
    proof (cases "validate_flags Deploy_flagsConfig f")
      case (Some m)
      from Deploy_invoke_invalid [OF Some, of env] r show ?thesis by simp
    qed simp
    from r have run: "fst (Deploy_run env ?c0) = Inr r"
      by (simp add: Deploy_invoke_valid [OF valid])
    from Deploy_run_result [OF run]
    have ok: "fst ?d = None"
      and json: "r = getJson (Deploy_formatter env (snd (Deploy_run env ?c0)))"
      by simp_all
    from preChecks_deploy_isAsync [OF ok] assms have "isAsync (snd ?d)" by simp
    with Deploy_run_tail [of env ?c0] have a: "isAsync (snd (Deploy_run env ?c0))" by simp
    have h: "asyncDeployResult (snd (Deploy_run env ?c0)) = asyncDeployResult (snd ?d)"
      using Deploy_run_tail [of env ?c0] by simp
    show ?thesis
    proof (cases "truthy (validateddeployrequestid f)")
      case True
      then have "truthy (validateddeployrequestid (flags ?c0))" by simp
      from preChecks_deploy_asyncDeployResult_validated [OF ok this]
      obtain d where d: "replay env (validateddeployrequestid f) = Inr d"
        and "asyncDeployResult (snd ?d) = Some \<lparr>async_id = response_id (response d)\<rparr>"
        by auto
      with h a json
      have "r = DeployCommandAsyncResult (Some \<lparr>async_id = response_id (response d)\<rparr>)"
        by (simp add: Deploy_formatter_def)
      with d True show ?thesis by simp
    next
      case False
      then have "\<not> truthy (validateddeployrequestid (flags ?c0))" by simp
      from preChecks_deploy_asyncDeployResult [OF ok this]
      obtain cs opts i where i: "componentSet_deploy env cs opts = Inr i"
        and "asyncDeployResult (snd ?d) = Some \<lparr>async_id = i\<rparr>"
        by blast
      with h a json have "r = DeployCommandAsyncResult (Some \<lparr>async_id = i\<rparr>)"
        by (simp add: Deploy_formatter_def)
      with i False show ?thesis by auto
    qed
  qed
  from poll res show ?thesis by blast
qed

theorem C3_async_returns_request_id_witness:
  "wait flags_async = 0 \<and>
   fst (Deploy_invoke example_env flags_async) =
     Inr (DeployCommandAsyncResult (Some \<lparr>async_id = ''0Af000000000001AAA''\<rparr>)) \<and>
   \<not> list_ex is_poll (trace (snd (Deploy_invoke example_env flags_async))) \<and>
   wait flags_replay_async = 0 \<and>
   fst (Deploy_invoke example_env flags_replay_async) =
     Inr (DeployCommandAsyncResult (Some \<lparr>async_id = response_id (response example_result)\<rparr>)) \<and>
   \<not> list_ex is_poll (trace (snd (Deploy_invoke example_env flags_replay_async)))"
proof -
  have h1: "wait flags_async = 0" by (simp add: flags_async_def)
  have h2: "wait flags_replay_async = 0" by (simp add: flags_replay_async_def)
  have "fst (Deploy_run example_env (new_command flags_async)) =
     Inr (DeployCommandAsyncResult (Some \<lparr>async_id = ''0Af000000000001AAA''\<rparr>))"
    by (simp add: deploy_eval flags_async_def example_defs)
  then have e1: "fst (Deploy_invoke example_env flags_async) =
     Inr (DeployCommandAsyncResult (Some \<lparr>async_id = ''0Af000000000001AAA''\<rparr>))"
    by (simp add: Deploy_invoke_valid [OF valid_flags_async])
  have "fst (Deploy_run example_env (new_command flags_replay_async)) =
     Inr (DeployCommandAsyncResult (Some \<lparr>async_id = response_id (response example_result)\<rparr>))"
    by (simp add: deploy_eval flags_replay_async_def flags_replay_def example_defs)
  then have e2: "fst (Deploy_invoke example_env flags_replay_async) =
     Inr (DeployCommandAsyncResult (Some \<lparr>async_id = response_id (response example_result)\<rparr>))"
    by (simp add: Deploy_invoke_valid [OF valid_flags_replay_async])
  from C3_async_returns_request_id [OF h1, of example_env]
    C3_async_returns_request_id [OF h2, of example_env] h1 h2 e1 e2
  show ?thesis by blast
qed

text \<open>
  C4, as the spec states it: the warning is about pending local deletions that are not
  represented in the resolved component set. \<^verbatim>\<open>deploy\<close> does not look at the component
  set for it: here the only pending local deletion, \<^verbatim>\<open>classes/A.cls\<close>, is a file of the
  resolved component \<open>A\<close>, and the warning is emitted all the same.
\<close>

theorem C4_counterexample:
  "tracksource flags_tracked \<and>
   validate_flags Deploy_flagsConfig flags_tracked = None \<and>
   componentSet (snd (Deploy_invoke example_env flags_tracked)) = Some [component_A] \<and>
   unrepresented_deletes example_tracking [component_A] = [] \<and>
   Warn ''deployWontDelete'' \<in> set (trace (snd (Deploy_invoke example_env flags_tracked)))"
proof -
  have "componentSet (snd (Deploy_run example_env (new_command flags_tracked))) =
          Some [component_A] \<and>
        Warn ''deployWontDelete'' \<in>
          set (trace (snd (Deploy_run example_env (new_command flags_tracked))))"
    by (simp add: deploy_eval flags_tracked_def example_flags_def example_env_def
        example_tracking_def example_result_def)
       (simp add: component_A_def)
  moreover have "unrepresented_deletes example_tracking [component_A] = []"
    by (simp add: unrepresented_deletes_def getChanges_local_delete_def componentSet_paths_def
        example_tracking_def component_A_def)
  moreover have "tracksource flags_tracked"
    by (simp add: flags_tracked_def example_flags_def)
  ultimately show ?thesis
    by (simp add: Deploy_invoke_valid [OF valid_flags_tracked] valid_flags_tracked)
qed

text \<open>
  C4, amended. On an accepted invocation with \<open>tracksource\<close> set that gets past the
  conflict check (\<open>forceoverwrite\<close> is set or there is no conflict) and whose predeploy
  listeners do not throw, the warning is emitted exactly when some local deletion is
  pending, whether the component set represents it or not, and the deploy is submitted in
  either case. In particular a pending deletion that the component set does not
  represent is warned about.
\<close>

theorem C4_pending_deletes_warn_and_submit:
  assumes "tracksource f"
    and "validate_flags Deploy_flagsConfig f = None"
    and "trackingSetup env = Inr t"
    and "getSourceApiVersion env = Inr sav"
    and "build env (buildOptions env f sav) = Inr cs"
    and "forceoverwrite f \<or> conflicts t cs = []"
    and "emit env ''predeploy'' = None"
  shows "(Warn ''deployWontDelete'' \<in> set (trace (snd (Deploy_invoke env f))) \<longleftrightarrow>
            getChanges_local_delete t \<noteq> []) \<and>
         (unrepresented_deletes t cs \<noteq> [] \<longrightarrow>
            Warn ''deployWontDelete'' \<in> set (trace (snd (Deploy_invoke env f)))) \<and>
         list_ex is_submission (trace (snd (Deploy_invoke env f)))"
proof -
  let ?c0 = "new_command f"
  let ?c1 = "beginDeploy env (snd (Deploy_preChecks env ?c0))"
  let ?q = "and_then (resolveComponents env ?c1) checkTracking"
  let ?s = "submit env (wait f) (snd ?q)"
  let ?d = "and_then (Deploy_preChecks env ?c0) (Deploy_deploy env)"
  let ?R = "Deploy_run env ?c0"
  have nv: "\<not> truthy (validateddeployrequestid f)"
    by (rule valid_flags_not_truthy [OF assms(2) assms(1)])
  have pre: "fst (Deploy_preChecks env ?c0) = None"
    using assms(3) by (simp add: Deploy_preChecks_def)
  have q: "fst ?q = None \<and> componentSet (snd ?q) = Some cs \<and>
           (Warn ''deployWontDelete'' \<in> set (trace (snd ?q)) \<longleftrightarrow> getChanges_local_delete t \<noteq> [])"
    using assms(1,3-6)
    by (auto simp add: Deploy_preChecks_def beginDeploy_def resolveComponents_def
        checkTracking_def checkConflicts_def warnLocalDeletes_def
        filterConflictsByComponentSet_def record_event_def new_command_def Let_def)
  have d: "?d = and_then ?s (postdeploy env)"
    using pre nv q
    by (simp add: preChecks_deploy_cases Deploy_deploy_cases deployComponents_cases)
  have s: "list_ex is_submission (trace (snd ?s))"
    using q assms(7) by (simp add: submit_submits)
  have a1: "only_adds (\<lambda>e. e \<noteq> Warn ''deployWontDelete'') (snd ?q) (snd ?s)"
    by (rule only_adds_mono [OF submit_adds]) (auto elim: submit_event.elims)
  have a2: "only_adds (\<lambda>e. e \<noteq> Warn ''deployWontDelete'') (snd ?s) (snd ?d)"
    unfolding d
    by (rule only_adds_and_then) (simp_all add: only_adds_mono [OF postdeploy_adds])
  from Deploy_run_tail [of env ?c0]
  have "only_adds (\<lambda>e. e = UpdateTracking \<or> format_event (json (flags ?c0)) e) (snd ?d) (snd ?R)"
    by blast
  then have a3: "only_adds (\<lambda>e. e \<noteq> Warn ''deployWontDelete'') (snd ?d) (snd ?R)"
    by (rule only_adds_mono) (auto elim: format_event.elims)
  from a1 a2 a3 have a: "only_adds (\<lambda>e. e \<noteq> Warn ''deployWontDelete'') (snd ?q) (snd ?R)"
    by (blast intro: only_adds_trans)
  from a2 a3 have b: "only_adds (\<lambda>e. e \<noteq> Warn ''deployWontDelete'') (snd ?s) (snd ?R)"
    by (rule only_adds_trans)
  from a obtain evs where evs: "trace (snd ?R) = trace (snd ?q) @ evs"
    and n: "list_all (\<lambda>e. e \<noteq> Warn ''deployWontDelete'') evs"
    by (auto simp: only_adds_def)
  from n have "Warn ''deployWontDelete'' \<notin> set evs" by (auto simp: list_all_iff)
  with evs q have w: "Warn ''deployWontDelete'' \<in> set (trace (snd ?R)) \<longleftrightarrow>
                      getChanges_local_delete t \<noteq> []"
    by simp
  from b obtain evs' where "trace (snd ?R) = trace (snd ?s) @ evs'"
    by (auto simp: only_adds_def)
  with s have sub: "list_ex is_submission (trace (snd ?R))" by simp
  have u: "unrepresented_deletes t cs \<noteq> [] \<Longrightarrow> getChanges_local_delete t \<noteq> []"
    by (auto simp: unrepresented_deletes_def)
  from w sub u show ?thesis
    by (simp add: Deploy_invoke_valid [OF assms(2)])
qed

theorem C4_pending_deletes_warn_and_submit_witness:
  "tracksource flags_tracked \<and>
   validate_flags Deploy_flagsConfig flags_tracked = None \<and>
   (forceoverwrite flags_tracked \<or> conflicts example_tracking [component_A] = []) \<and>
   getChanges_local_delete example_tracking \<noteq> [] \<and>
   Warn ''deployWontDelete'' \<in> set (trace (snd (Deploy_invoke example_env flags_tracked))) \<and>
   list_ex is_submission (trace (snd (Deploy_invoke example_env flags_tracked)))"
proof -
  have h1: "tracksource flags_tracked"
    by (simp add: flags_tracked_def example_flags_def)
  have h3: "trackingSetup example_env = Inr example_tracking"
    and h4: "getSourceApiVersion example_env = Inr (Some ''56.0'')"
    and h5: "build example_env (buildOptions example_env flags_tracked (Some ''56.0'')) =
             Inr [component_A]"
    and h7: "emit example_env ''predeploy'' = None"
    by (simp_all add: example_env_def)
  have h6: "forceoverwrite flags_tracked \<or> conflicts example_tracking [component_A] = []"
    by (simp add: conflicts_def componentSet_paths_def example_tracking_def component_A_def)
  have del: "getChanges_local_delete example_tracking \<noteq> []"
    by (simp add: getChanges_local_delete_def example_tracking_def)
  from C4_pending_deletes_warn_and_submit [OF h1 valid_flags_tracked h3 h4 h5 h6 h7]
    h1 valid_flags_tracked h6 del
  show ?thesis by blast
qed

text \<open>
  C5. In validated-replay mode (a truthy \<open>validateddeployrequestid\<close> on an accepted
  invocation) no component set is ever built, and the replay-by-id call
  \<^verbatim>\<open>deployRecentValidation\<close> is the first call on a collaborator (only the warning about
  coverage and JUnit flags of an asynchronous deploy can come before it). What the replay
  call returns becomes the DeployResult.
\<close>

theorem C5_validated_replay_skips_resolution:
  assumes "truthy (validateddeployrequestid f)"
    and "validate_flags Deploy_flagsConfig f = None"
  shows "\<not> list_ex is_build (trace (snd (Deploy_invoke env f))) \<and>
         (\<exists>evs. trace (snd (Deploy_invoke env f)) =
            (if wait f = 0 \<and> (coverageformatters f \<noteq> None \<or> junit f)
             then [Warn ''asyncCoverageJunitWarning''] else []) @
            DeployRecentValidation (validateddeployrequestid f) # evs) \<and>
         (\<forall>r. replay env (validateddeployrequestid f) = Inr r \<longrightarrow>
              deployResult (snd (Deploy_invoke env f)) = Some r)"
proof -
  let ?c0 = "new_command f"
  let ?c1 = "beginDeploy env ?c0"
  let ?v = "deployValidated env ?c1"
  let ?d = "and_then (Deploy_preChecks env ?c0) (Deploy_deploy env)"
  have inv: "Deploy_invoke env f = Deploy_run env ?c0"
    by (rule Deploy_invoke_valid [OF assms(2)])
  have nt: "\<not> tracksource f" by (rule valid_flags_truthy [OF assms(2) assms(1)])
  then have pre: "Deploy_preChecks env ?c0 = (None, ?c0)"
    by (simp add: Deploy_preChecks_def)
  have d: "?d = and_then ?v (postdeploy env)"
    using assms(1) by (simp add: pre Deploy_deploy_cases)
  have build: "\<not> list_ex is_build (trace (snd (Deploy_invoke env f)))"
    by (rule list_all_not_ex [OF Deploy_invoke_events]) (auto simp: assms(1) elim: is_build.elims)
  have c1: "trace ?c1 = (if wait f = 0 \<and> (coverageformatters f \<noteq> None \<or> junit f)
             then [Warn ''asyncCoverageJunitWarning''] else [])"
    by (simp add: beginDeploy_def record_event_def Let_def)
  have v: "trace (snd ?v) = trace ?c1 @ [DeployRecentValidation (validateddeployrequestid f)]"
    by (simp add: deployValidated_trace)
  have "only_adds (\<lambda>e. True) (snd ?v) (snd ?d)"
    unfolding d
    by (rule only_adds_and_then) (simp_all add: only_adds_mono [OF postdeploy_adds])
  then obtain e1 where e1: "trace (snd ?d) = trace (snd ?v) @ e1"
    by (auto simp: only_adds_def)
  from Deploy_run_tail [of env ?c0] obtain e2
    where e2: "trace (snd (Deploy_run env ?c0)) = trace (snd ?d) @ e2"
    by (auto simp: only_adds_def)
  have shape: "\<exists>evs. trace (snd (Deploy_invoke env f)) =
            (if wait f = 0 \<and> (coverageformatters f \<noteq> None \<or> junit f)
             then [Warn ''asyncCoverageJunitWarning''] else []) @
            DeployRecentValidation (validateddeployrequestid f) # evs"
    by (rule exI [of _ "e1 @ e2"]) (simp add: inv e2 e1 v c1)
  have res: "deployResult (snd (Deploy_invoke env f)) = Some r"
    if r: "replay env (validateddeployrequestid f) = Inr r" for r
  proof -
    from r have "replay env (validateddeployrequestid (flags ?c1)) = Inr r" by simp
    from deployValidated_deployResult(1) [OF this]
    have ok: "fst ?v = None" and dr: "deployResult (snd ?v) = Some r" by simp_all
    from ok have pv: "and_then ?v (postdeploy env) = postdeploy env (snd ?v)"
      by (simp add: and_then_cases)
    have "?d = postdeploy env (snd ?v)" unfolding d by (rule pv)
    with dr have "deployResult (snd ?d) = Some r" by simp
    with Deploy_run_tail [of env ?c0] show ?thesis by (simp add: inv)
  qed
  from build shape res show ?thesis by blast
qed

theorem C5_validated_replay_skips_resolution_witness:
  "truthy (validateddeployrequestid flags_replay) \<and>
   validate_flags Deploy_flagsConfig flags_replay = None \<and>
   replay example_env (validateddeployrequestid flags_replay) = Inr example_result \<and>
   \<not> list_ex is_build (trace (snd (Deploy_invoke example_env flags_replay))) \<and>
   deployResult (snd (Deploy_invoke example_env flags_replay)) = Some example_result"
proof -
  have h1: "truthy (validateddeployrequestid flags_replay)"
    by (simp add: flags_replay_def example_flags_def)
  have h3: "replay example_env (validateddeployrequestid flags_replay) = Inr example_result"
    by (simp add: example_env_def)
  from C5_validated_replay_skips_resolution [OF h1 valid_flags_replay, of example_env] h3
  have "\<not> list_ex is_build (trace (snd (Deploy_invoke example_env flags_replay))) \<and>
        deployResult (snd (Deploy_invoke example_env flags_replay)) = Some example_result"
    by blast
  with h1 valid_flags_replay h3 show ?thesis by blast
qed

text \<open>
  C6. When \<^verbatim>\<open>pollStatus\<close> throws during report, the deploy status is fetched in every
  case (the fetch is in the finally block). Exactly one kind of thrown value is recovered
  from: for an \<^verbatim>\<open>Error\<close> whose message contains "The client has timed out",
  \<^verbatim>\<open>doReport\<close> completes with the fetched DeployResult as the deploy result of the
  command, which goes on to format it. Any other thrown value makes the command fail, and
  it is that value the caller gets. (Should the fetch of the finally block throw too, the
  caller gets what the fetch threw, on both paths.)
\<close>

theorem C6_report_recovers_client_timeout_only:
  assumes "resolveDeployId env (jobid f) = Inr i"
    and "resolveOutputDir env (coverageformatters f) (junit f) (resultsdir f) (Some i) False = Inr d"
    and "verbose f \<longrightarrow> (\<exists>cs. build env (Report_buildOptions env) = Inr cs)"
    and "pollStatus env i (wait f) = Inl x"
  shows "ReportStatus i \<in> set (trace (snd (Report_doReport env (new_command f)))) \<and>
         (isClientTimeout x \<longrightarrow>
            (\<forall>r. report env i = Inr r \<longrightarrow>
               fst (Report_doReport env (new_command f)) = None \<and>
               deployResult (snd (Report_doReport env (new_command f))) = Some r \<and>
               Report_run env (new_command f) =
                 Report_formatResult env (snd (Report_doReport env (new_command f))))) \<and>
         (\<not> isClientTimeout x \<longrightarrow>
            (\<exists>e. fst (Report_run env (new_command f)) = Inl e) \<and>
            (\<forall>r. report env i = Inr r \<longrightarrow>
               fst (Report_run env (new_command f)) = Inl (Thrown x))) \<and>
         (\<forall>y. report env i = Inl y \<longrightarrow> fst (Report_run env (new_command f)) = Inl (Thrown y))"
proof -
  note p = Report_doReport_polled [OF assms(1,2,3)]
  have o: "fst (Report_doReport env (new_command f)) =
           (case report env i of
              Inl y \<Rightarrow> Some (Thrown y)
            | Inr r \<Rightarrow> if isClientTimeout x then None else Some (Thrown x))"
    using p(2) assms(4) by (simp split: sum.splits)
  show ?thesis
  proof (cases "report env i")
    case (Inl y)
    with o have "fst (Report_doReport env (new_command f)) = Some (Thrown y)" by simp
    from Report_run_failed [OF this] p(1) Inl show ?thesis by simp
  next
    case (Inr r)
    show ?thesis
    proof (cases "isClientTimeout x")
      case True
      with o Inr have n: "fst (Report_doReport env (new_command f)) = None" by simp
      then have "Report_run env (new_command f) =
                 Report_formatResult env (snd (Report_doReport env (new_command f)))"
        by (simp add: Report_run_cases)
      with n p(1) p(3) [OF Inr] Inr True show ?thesis by simp
    next
      case False
      with o Inr have "fst (Report_doReport env (new_command f)) = Some (Thrown x)" by simp
      from Report_run_failed [OF this] p(1) Inr False show ?thesis by simp
    qed
  qed
qed

theorem C6_report_recovers_client_timeout_only_witness:
  "isClientTimeout (JsError ''Metadata API request failed: The client has timed out.'') \<and>
   fst (Report_doReport
         (example_env\<lparr>pollStatus := \<lambda>i w.
            Inl (JsError ''Metadata API request failed: The client has timed out.'')\<rparr>)
         (new_command flags_report)) = None \<and>
   deployResult (snd (Report_doReport
         (example_env\<lparr>pollStatus := \<lambda>i w.
            Inl (JsError ''Metadata API request failed: The client has timed out.'')\<rparr>)
         (new_command flags_report))) = Some example_result \<and>
   \<not> isClientTimeout (JsError ''socket hang up'') \<and>
   fst (Report_run (example_env\<lparr>pollStatus := \<lambda>i w. Inl (JsError ''socket hang up'')\<rparr>)
         (new_command flags_report)) = Inl (Thrown (JsError ''socket hang up''))"
proof -
  let ?t = "JsError ''Metadata API request failed: The client has timed out.''"
  let ?e1 = "example_env\<lparr>pollStatus := \<lambda>i w. Inl ?t\<rparr>"
  let ?e2 = "example_env\<lparr>pollStatus := \<lambda>i w. Inl (JsError ''socket hang up'')\<rparr>"
  let ?i = "''0Af000000000002AAA''"
  have t: "isClientTimeout ?t" by simp
  have n: "\<not> isClientTimeout (JsError ''socket hang up'')" by simp
  have a1: "resolveDeployId ?e1 (jobid flags_report) = Inr ?i"
    and a2: "resolveOutputDir ?e1 (coverageformatters flags_report) (junit flags_report)
               (resultsdir flags_report) (Some ?i) False = Inr None"
    and a3: "verbose flags_report \<longrightarrow> (\<exists>cs. build ?e1 (Report_buildOptions ?e1) = Inr cs)"
    and a4: "pollStatus ?e1 ?i (wait flags_report) = Inl ?t"
    and a5: "report ?e1 ?i = Inr example_result"
    by (simp_all add: flags_report_def example_flags_def example_env_def)
  have b1: "resolveDeployId ?e2 (jobid flags_report) = Inr ?i"
    and b2: "resolveOutputDir ?e2 (coverageformatters flags_report) (junit flags_report)
               (resultsdir flags_report) (Some ?i) False = Inr None"
    and b3: "verbose flags_report \<longrightarrow> (\<exists>cs. build ?e2 (Report_buildOptions ?e2) = Inr cs)"
    and b4: "pollStatus ?e2 ?i (wait flags_report) = Inl (JsError ''socket hang up'')"
    and b5: "report ?e2 ?i = Inr example_result"
    by (simp_all add: flags_report_def example_flags_def example_env_def)
  from C6_report_recovers_client_timeout_only [OF a1 a2 a3 a4] t a5
  have r1: "fst (Report_doReport ?e1 (new_command flags_report)) = None \<and>
            deployResult (snd (Report_doReport ?e1 (new_command flags_report))) = Some example_result"
    by blast
  from C6_report_recovers_client_timeout_only [OF b1 b2 b3 b4] n b5
  have r2: "fst (Report_run ?e2 (new_command flags_report)) =
            Inl (Thrown (JsError ''socket hang up''))"
    by blast
  from t r1 n r2 show ?thesis by blast
qed

text \<open>
  C7. With JSON output requested, no run of deploy or of report renders progress or
  calls the display of a formatter, and whenever the command returns, what it returns is
  the JSON of the formatter it built, as it is. (The warnings and the message of the
  \<^verbatim>\<open>apiVersionDeploy\<close> listener go through \<^verbatim>\<open>this.warn\<close>, \<^verbatim>\<open>this.ux.warn\<close> and
  \<^verbatim>\<open>this.ux.log\<close> of the command framework, not through the progress and result
  formatters; the commands do not test for JSON output around them, and they are not
  display events here.)
\<close>

theorem C7_json_output_suppresses_display:
  assumes "json f"
  shows "\<not> list_ex is_display (trace (snd (Deploy_invoke env f))) \<and>
         (\<forall>r. fst (Deploy_invoke env f) = Inr r \<longrightarrow>
            r = getJson (Deploy_formatter env (snd (Deploy_invoke env f)))) \<and>
         \<not> list_ex is_display (trace (snd (Report_run env (new_command f)))) \<and>
         (\<forall>r. fst (Report_run env (new_command f)) = Inr r \<longrightarrow>
            r = getJson (Report_formatter env (snd (Report_run env (new_command f)))))"
proof -
  have d1: "\<not> list_ex is_display (trace (snd (Deploy_invoke env f)))"
    by (rule list_all_not_ex [OF Deploy_invoke_events]) (auto simp: assms elim: is_display.elims)
  have d2: "r = getJson (Deploy_formatter env (snd (Deploy_invoke env f)))"
    if r: "fst (Deploy_invoke env f) = Inr r" for r
  proof (cases "validate_flags Deploy_flagsConfig f")
    case (Some m)
    from Deploy_invoke_invalid [OF Some, of env] r show ?thesis by simp
  next
    case None
    from r have "fst (Deploy_run env (new_command f)) = Inr r"
      by (simp add: Deploy_invoke_valid [OF None])
    from Deploy_run_result [OF this] show ?thesis
      by (simp add: Deploy_invoke_valid [OF None])
  qed
  have "list_all (report_event (json (flags (new_command f))))
          (trace (snd (Report_run env (new_command f))))"
    by (rule only_adds_list_all [OF Report_run_adds]) simp
  then have "list_all (report_event True) (trace (snd (Report_run env (new_command f))))"
    by (simp add: assms)
  then have r1: "\<not> list_ex is_display (trace (snd (Report_run env (new_command f))))"
    by (rule list_all_not_ex) (auto elim: is_display.elims)
  have r2: "r = getJson (Report_formatter env (snd (Report_run env (new_command f))))"
    if r: "fst (Report_run env (new_command f)) = Inr r" for r
    using Report_run_result(2) [OF r] .
  from d1 d2 r1 r2 show ?thesis by blast
qed

theorem C7_json_output_suppresses_display_witness:
  "json (flags_async\<lparr>json := True\<rparr>) \<and>
   fst (Deploy_invoke example_env (flags_async\<lparr>json := True\<rparr>)) =
     Inr (DeployCommandAsyncResult (Some \<lparr>async_id = ''0Af000000000001AAA''\<rparr>)) \<and>
   \<not> list_ex is_display (trace (snd (Deploy_invoke example_env (flags_async\<lparr>json := True\<rparr>)))) \<and>
   json (flags_report\<lparr>json := True\<rparr>) \<and>
   fst (Report_run example_env (new_command (flags_report\<lparr>json := True\<rparr>))) =
     Inr (DeployCommandResult (Some example_result)) \<and>
   \<not> list_ex is_display
       (trace (snd (Report_run example_env (new_command (flags_report\<lparr>json := True\<rparr>)))))"
proof -
  let ?f = "flags_async\<lparr>json := True\<rparr>"
  let ?g = "flags_report\<lparr>json := True\<rparr>"
  have h1: "json ?f" and h2: "json ?g" by simp_all
  have v: "validate_flags Deploy_flagsConfig ?f = None"
    by (rule valid_flags_intro) (simp_all add: count_xorFlags flags_async_def example_flags_def)
  have "fst (Deploy_run example_env (new_command ?f)) =
     Inr (DeployCommandAsyncResult (Some \<lparr>async_id = ''0Af000000000001AAA''\<rparr>))"
    by (simp add: deploy_eval flags_async_def example_defs)
  then have e1: "fst (Deploy_invoke example_env ?f) =
     Inr (DeployCommandAsyncResult (Some \<lparr>async_id = ''0Af000000000001AAA''\<rparr>))"
    by (simp add: Deploy_invoke_valid [OF v])
  have e2: "fst (Report_run example_env (new_command ?g)) =
     Inr (DeployCommandResult (Some example_result))"
    by (simp add: report_eval flags_report_def example_flags_def example_env_def)
  from C7_json_output_suppresses_display [OF h1, of example_env]
    C7_json_output_suppresses_display [OF h2, of example_env] h1 h2 e1 e2
  show ?thesis by blast
qed

text \<open>
  C8, as the spec states it: the DeployResult is populated only if a status poll
  occurred, and never when \<open>wait = 0\<close>. It fails for a validated replay with
  \<open>wait = 0\<close>: \<^verbatim>\<open>deploy\<close> assigns what the replay call returns, whatever the wait is,
  and calls \<^verbatim>\<open>pollStatus\<close> on no deploy handle.
\<close>

theorem C8_counterexample:
  "wait flags_replay_async = 0 \<and>
   validate_flags Deploy_flagsConfig flags_replay_async = None \<and>
   deployResult (snd (Deploy_invoke example_env flags_replay_async)) = Some example_result \<and>
   \<not> list_ex is_poll (trace (snd (Deploy_invoke example_env flags_replay_async)))"
proof -
  have "deployResult (snd (Deploy_run example_env (new_command flags_replay_async))) =
          Some example_result \<and>
        \<not> list_ex is_poll (trace (snd (Deploy_run example_env (new_command flags_replay_async))))"
    by (simp add: deploy_eval flags_replay_async_def flags_replay_def example_defs)
  then show ?thesis
    by (simp add: Deploy_invoke_valid [OF valid_flags_replay_async] valid_flags_replay_async)
       (simp add: flags_replay_async_def)
qed

text \<open>
  C8, amended. The postdeploy event is emitted exactly when the DeployResult is
  populated. The DeployResult is populated only in validated-replay mode (from the
  replay call) or by a status poll; a status poll occurs only on the component-set path
  and only when \<open>wait\<close> is not 0. When the command returns, the DeployResult is populated
  if and only if the mode is validated-replay or a status poll occurred.
\<close>

theorem C8_deploy_result_and_postdeploy:
  "(LifecycleEmit ''postdeploy'' \<in> set (trace (snd (Deploy_invoke env f))) \<longleftrightarrow>
      deployResult (snd (Deploy_invoke env f)) \<noteq> None) \<and>
   (deployResult (snd (Deploy_invoke env f)) \<noteq> None \<longrightarrow>
      truthy (validateddeployrequestid f) \<or> list_ex is_poll (trace (snd (Deploy_invoke env f)))) \<and>
   (list_ex is_poll (trace (snd (Deploy_invoke env f))) \<longrightarrow>
      wait f \<noteq> 0 \<and> \<not> truthy (validateddeployrequestid f)) \<and>
   (\<forall>r. fst (Deploy_invoke env f) = Inr r \<longrightarrow>
      (deployResult (snd (Deploy_invoke env f)) \<noteq> None \<longleftrightarrow>
         truthy (validateddeployrequestid f) \<or>
         list_ex is_poll (trace (snd (Deploy_invoke env f)))))"
proof (cases "validate_flags Deploy_flagsConfig f")
  case (Some m)
  from Deploy_invoke_invalid [OF Some, of env] show ?thesis by simp
next
  case None
  let ?c0 = "new_command f"
  let ?d = "and_then (Deploy_preChecks env ?c0) (Deploy_deploy env)"
  let ?R = "Deploy_run env ?c0"
  have inv: "Deploy_invoke env f = ?R" by (rule Deploy_invoke_valid [OF None])
  note tail = Deploy_run_tail [of env ?c0]
  have dr: "deployResult (snd ?R) = deployResult (snd ?d)" using tail by simp
  have p: "list_ex is_poll (trace (snd ?R)) = list_ex is_poll (trace (snd ?d))"
    by (rule Deploy_run_tail_events) simp_all
  have "list_ex (\<lambda>e. e = LifecycleEmit ''postdeploy'') (trace (snd ?R)) =
        list_ex (\<lambda>e. e = LifecycleEmit ''postdeploy'') (trace (snd ?d))"
    by (rule Deploy_run_tail_events) simp_all
  then have e: "LifecycleEmit ''postdeploy'' \<in> set (trace (snd ?R)) \<longleftrightarrow>
                LifecycleEmit ''postdeploy'' \<in> set (trace (snd ?d))"
    by (simp add: list_ex_eq)
  have a: "LifecycleEmit ''postdeploy'' \<in> set (trace (snd ?R)) \<longleftrightarrow> deployResult (snd ?R) \<noteq> None"
    using preChecks_deploy_postdeploy [of ?c0 env] by (simp add: e dr)
  note q = preChecks_deploy_deployResult [of ?c0 env, simplified]
  have b: "deployResult (snd ?R) \<noteq> None \<longrightarrow>
             truthy (validateddeployrequestid f) \<or> list_ex is_poll (trace (snd ?R))"
    using q by (auto simp: dr p)
  have c: "list_ex is_poll (trace (snd ?R)) \<longrightarrow> wait f \<noteq> 0 \<and> \<not> truthy (validateddeployrequestid f)"
  proof
    assume "list_ex is_poll (trace (snd ?R))"
    then obtain x where x: "x \<in> set (trace (snd ?R))" "is_poll x" by (auto simp: list_ex_iff)
    from Deploy_invoke_events [of f env] x(1)
    have "deploy_event (truthy (validateddeployrequestid f)) (wait f = 0) (json f) x"
      by (simp add: inv list_all_iff)
    with x(2) show "wait f \<noteq> 0 \<and> \<not> truthy (validateddeployrequestid f)"
      by (auto elim: is_poll.elims)
  qed
  have d: "deployResult (snd ?R) \<noteq> None \<longleftrightarrow>
             truthy (validateddeployrequestid f) \<or> list_ex is_poll (trace (snd ?R))"
    if r: "fst ?R = Inr r" for r
  proof -
    from Deploy_run_result [OF r] have "fst ?d = None" by simp
    with q have "deployResult (snd ?d) \<noteq> None \<longleftrightarrow>
                 truthy (validateddeployrequestid f) \<or> wait f \<noteq> 0"
      by simp
    with b c show ?thesis by (auto simp: dr)
  qed
  from a b c d show ?thesis unfolding inv by blast
qed

theorem C8_deploy_result_and_postdeploy_witness:
  "deployResult (snd (Deploy_invoke example_env flags_tracked)) \<noteq> None \<and>
   \<not> truthy (validateddeployrequestid flags_tracked) \<and>
   LifecycleEmit ''postdeploy'' \<in> set (trace (snd (Deploy_invoke example_env flags_tracked))) \<and>
   list_ex is_poll (trace (snd (Deploy_invoke example_env flags_tracked))) \<and>
   wait flags_tracked \<noteq> 0"
proof -
  have "deployResult (snd (Deploy_run example_env (new_command flags_tracked))) \<noteq> None"
    by (simp add: deploy_eval flags_tracked_def example_defs)
  then have h1: "deployResult (snd (Deploy_invoke example_env flags_tracked)) \<noteq> None"
    by (simp add: Deploy_invoke_valid [OF valid_flags_tracked])
  have h2: "\<not> truthy (validateddeployrequestid flags_tracked)"
    by (simp add: flags_tracked_def example_flags_def)
  from C8_deploy_result_and_postdeploy [of example_env flags_tracked] h1 h2
  show ?thesis by blast
qed

text \<open>
  C9. \<^verbatim>\<open>resolveSuccess\<close> of report is empty, and its comment says why: "any DeployResult
  status would be a success. The only time this command would report an error is if it
  failed flag parsing or some error during the request". The command does not keep to
  that: \<^verbatim>\<open>formatResult\<close> calls \<^verbatim>\<open>formatter.display()\<close> outside any handler when JSON
  output was not requested, and a display that throws for a failed deploy fails the
  command after the status was fetched. For \<^verbatim>\<open>deploy:report --jobid 0Af000000000002AAA\<close>
  on a deploy whose status is \<open>Failed\<close>, polling and the status fetch succeed,
  \<^verbatim>\<open>doReport\<close> completes with the fetched result and no step sets the exit code, yet
  the command fails with what the display threw and the exit status is 1; the same
  invocation with \<^verbatim>\<open>--json\<close> returns the fetched result with exit status 0.
\<close>

theorem C9_report_failed_status_exit_code:
  "status (response example_result) = Failed \<and>
   pollStatus example_env ''0Af000000000002AAA'' (wait flags_report) = Inr example_result \<and>
   report example_env ''0Af000000000002AAA'' = Inr example_result \<and>
   fst (Report_doReport example_env (new_command flags_report)) = None \<and>
   deployResult (snd (Report_doReport example_env (new_command flags_report))) =
     Some example_result \<and>
   exitCode (snd (Report_run example_env (new_command flags_report))) = 0 \<and>
   fst (Report_run example_env (new_command flags_report)) =
     Inl (Thrown (JsError ''The metadata deploy operation failed.'')) \<and>
   exit_status (Report_run example_env (new_command flags_report)) = 1 \<and>
   fst (Report_run example_env (new_command (flags_report\<lparr>json := True\<rparr>))) =
     Inr (DeployCommandResult (Some example_result)) \<and>
   exit_status (Report_run example_env (new_command (flags_report\<lparr>json := True\<rparr>))) = 0"
proof -
  have s: "status (response example_result) = Failed" by (simp add: example_result_def)
  have p: "pollStatus example_env ''0Af000000000002AAA'' (wait flags_report) = Inr example_result"
    and r: "report example_env ''0Af000000000002AAA'' = Inr example_result"
    by (simp_all add: example_env_def)
  have d: "fst (Report_doReport example_env (new_command flags_report)) = None"
    "deployResult (snd (Report_doReport example_env (new_command flags_report))) =
       Some example_result"
    by (simp_all add: report_eval flags_report_def example_flags_def example_env_def)
  have e: "exitCode (snd (Report_run example_env (new_command flags_report))) = 0"
    by (simp add: Report_run_exitCode new_command_def)
  have f: "fst (Report_run example_env (new_command flags_report)) =
     Inl (Thrown (JsError ''The metadata deploy operation failed.''))"
    by (simp add: report_eval flags_report_def example_flags_def example_env_def
        example_result_def)
  then have x: "exit_status (Report_run example_env (new_command flags_report)) = 1"
    by (simp add: exit_status_def)
  have j: "fst (Report_run example_env (new_command (flags_report\<lparr>json := True\<rparr>))) =
     Inr (DeployCommandResult (Some example_result))"
    by (simp add: report_eval flags_report_def example_flags_def example_env_def)
  then have y: "exit_status (Report_run example_env (new_command (flags_report\<lparr>json := True\<rparr>))) = 0"
    by (simp add: exit_status_def Report_run_exitCode new_command_def)
  from s p r d e f x j y show ?thesis by blast
qed

text \<open>
  C10. In validated-replay mode the predeploy event is never emitted. Whatever the
  wait is, every submission of a component set comes right after the predeploy event:
  the events before the submission end with the predeploy event and the registration of
  the \<^verbatim>\<open>apiVersionDeploy\<close> listener, which \<^verbatim>\<open>deploy\<close> puts between the two.
\<close>

theorem C10_predeploy_only_before_submission:
  "(truthy (validateddeployrequestid f) \<longrightarrow>
      LifecycleEmit ''predeploy'' \<notin> set (trace (snd (Deploy_invoke env f)))) \<and>
   predeploy_before_submission (trace (snd (Deploy_invoke env f))) \<and>
   (list_ex is_submission (trace (snd (Deploy_invoke env f))) \<longrightarrow>
      LifecycleEmit ''predeploy'' \<in> set (trace (snd (Deploy_invoke env f))))"
proof -
  have a: "LifecycleEmit ''predeploy'' \<notin> set (trace (snd (Deploy_invoke env f)))"
    if "truthy (validateddeployrequestid f)"
    by (rule list_all_not_mem [OF Deploy_invoke_events]) (simp add: that)
  have b: "predeploy_before_submission (trace (snd (Deploy_invoke env f)))"
  proof (cases "validate_flags Deploy_flagsConfig f")
    case (Some m)
    from Deploy_invoke_invalid [OF Some, of env] show ?thesis
      by (simp add: predeploy_before_submission_none)
  next
    case None
    let ?c0 = "new_command f"
    have "predeploy_before_submission
            (trace (snd (and_then (Deploy_preChecks env ?c0) (Deploy_deploy env))))"
      by (rule preChecks_deploy_shape) simp
    moreover from Deploy_run_tail [of env ?c0]
    have "only_adds (\<lambda>e. e = UpdateTracking \<or> format_event (json (flags ?c0)) e)
       (snd (and_then (Deploy_preChecks env ?c0) (Deploy_deploy env))) (snd (Deploy_run env ?c0))"
      by blast
    ultimately have "predeploy_before_submission (trace (snd (Deploy_run env ?c0)))"
      by (rule predeploy_before_submission_adds [rotated 2]) (auto elim: format_event.elims)
    then show ?thesis by (simp add: Deploy_invoke_valid [OF None])
  qed
  have c: "LifecycleEmit ''predeploy'' \<in> set (trace (snd (Deploy_invoke env f)))"
    if s: "list_ex is_submission (trace (snd (Deploy_invoke env f)))"
  proof -
    from b s obtain pre
      where "takeWhile (\<lambda>e. \<not> is_submission e) (trace (snd (Deploy_invoke env f))) =
             pre @ [LifecycleEmit ''predeploy'', LifecycleOn ''apiVersionDeploy'']"
      by (auto simp: predeploy_before_submission_def)
    then have "LifecycleEmit ''predeploy'' \<in>
               set (takeWhile (\<lambda>e. \<not> is_submission e) (trace (snd (Deploy_invoke env f))))"
      by simp
    then show ?thesis by (rule set_takeWhileD [THEN conjunct1])
  qed
  from a b c show ?thesis by blast
qed

theorem C10_predeploy_only_before_submission_witness:
  "truthy (validateddeployrequestid flags_replay) \<and>
   LifecycleEmit ''predeploy'' \<notin> set (trace (snd (Deploy_invoke example_env flags_replay))) \<and>
   list_ex is_submission (trace (snd (Deploy_invoke example_env flags_async))) \<and>
   predeploy_before_submission (trace (snd (Deploy_invoke example_env flags_async))) \<and>
   LifecycleEmit ''predeploy'' \<in> set (trace (snd (Deploy_invoke example_env flags_async)))"
proof -
  have h1: "truthy (validateddeployrequestid flags_replay)"
    by (simp add: flags_replay_def example_flags_def)
  have "list_ex is_submission (trace (snd (Deploy_run example_env (new_command flags_async))))"
    by (simp add: deploy_eval flags_async_def example_defs)
  then have h2: "list_ex is_submission (trace (snd (Deploy_invoke example_env flags_async)))"
    by (simp add: Deploy_invoke_valid [OF valid_flags_async])
  from C10_predeploy_only_before_submission [of flags_replay example_env]
    C10_predeploy_only_before_submission [of flags_async example_env] h1 h2
  show ?thesis by blast
qed

end
